theory Spec2Isabelle
  imports Main "HOL-Library.AList" "HOL-Library.Sublist"
begin

section \<open>Python values used by the automation subsystem\<close>

text \<open>
  Decoded JSON values, as \<^verbatim>\<open>json.loads\<close> and Django's JSONField produce them.
  A Python dict is an association list in insertion order; numbers are integers
  (floating point values are outside this development).
\<close>

datatype json =
    JNull
  | JBool bool
  | JNum int
  | JStr string
  | JList "json list"
  | JDict "(string \<times> json) list"

type_synonym pydict = "(string \<times> json) list"

text \<open>Python truthiness of a decoded value (\<^verbatim>\<open>if x:\<close>, \<^verbatim>\<open>x or y\<close>).\<close>

fun truthy :: "json \<Rightarrow> bool" where
  "truthy JNull = False"
| "truthy (JBool b) = b"
| "truthy (JNum n) = (n \<noteq> 0)"
| "truthy (JStr s) = (s \<noteq> [])"
| "truthy (JList xs) = (xs \<noteq> [])"
| "truthy (JDict kvs) = (kvs \<noteq> [])"

text \<open>\<^verbatim>\<open>d[k] = v\<close> for every item of \<^verbatim>\<open>kvs\<close> in order (\<^verbatim>\<open>dict.update\<close>,
  and the unpacking \<^verbatim>\<open>{**a, **b}\<close>): a later item overrides an earlier one.\<close>

definition dict_update :: "pydict \<Rightarrow> pydict \<Rightarrow> pydict" where
  "dict_update d kvs = foldl (\<lambda>acc (k, v). AList.update k v acc) d kvs"

definition dict_get :: "pydict \<Rightarrow> string \<Rightarrow> json option" where
  "dict_get d k = map_of d k"

definition dict_keys :: "pydict \<Rightarrow> string list" where
  "dict_keys d = map fst d"

text \<open>Exceptions the code raises or lets through, with \<^verbatim>\<open>str(e)\<close>.\<close>

datatype exn =
    TimeoutExpired
  | RequestException string
  | ValueError string
  | TypeError string
  | AttributeError string
  | DoesNotExist
  | IntegrityError string
  | UnboundLocalError
  | OverflowError
  | SyntaxError string
  | OtherError string

fun exn_str :: "exn \<Rightarrow> string" where
  "exn_str TimeoutExpired = ''Command timed out''"
| "exn_str (RequestException m) = m"
| "exn_str (ValueError m) = m"
| "exn_str (TypeError m) = m"
| "exn_str (AttributeError m) = m"
| "exn_str DoesNotExist = ''PlaybookExecution matching query does not exist.''"
| "exn_str (IntegrityError m) = m"
| "exn_str UnboundLocalError = ''local variable referenced before assignment''"
| "exn_str OverflowError = ''date value out of range''"
| "exn_str (SyntaxError m) = m"
| "exn_str (OtherError m) = m"

text \<open>Decimal printing, for \<^verbatim>\<open>str(n)\<close> and \<^verbatim>\<open>strftime\<close>.\<close>

definition digit :: "nat \<Rightarrow> char" where
  "digit d = ''0123456789'' ! d"

function str_nat :: "nat \<Rightarrow> string" where
  "str_nat n = (if n < 10 then [digit n] else str_nat (n div 10) @ [digit (n mod 10)])"
  by pat_completeness auto
termination
  by (relation "measure id") auto

declare str_nat.simps [simp del]

definition pad2 :: "nat \<Rightarrow> string" where
  "pad2 n = [digit (n div 10 mod 10), digit (n mod 10)]"

definition pad4 :: "nat \<Rightarrow> string" where
  "pad4 n = [digit (n div 1000 mod 10), digit (n div 100 mod 10),
             digit (n div 10 mod 10), digit (n mod 10)]"

section \<open>Dates and times (Python's datetime)\<close>

text \<open>
  An aware datetime: the civil fields and the offset from UTC in seconds.
  \<^verbatim>\<open>timezone.now()\<close> has offset 0; \<^verbatim>\<open>timezone.make_aware\<close> attaches the offset of
  the configured zone (\<^verbatim>\<open>TIME_ZONE = 'Europe/Istanbul'\<close>).
\<close>

record datetime =
  year :: int
  month :: int
  day :: int
  hour :: int
  minute :: int
  second :: int
  microsecond :: int
  utcoffset :: int

record pytime =
  t_hour :: int
  t_minute :: int
  t_second :: int
  t_microsecond :: int

record pydate =
  d_year :: int
  d_month :: int
  d_day :: int

definition MAXORDINAL :: int where
  "MAXORDINAL = 3652059"

definition is_leap :: "int \<Rightarrow> bool" where
  "is_leap y = (y mod 4 = 0 \<and> (y mod 100 \<noteq> 0 \<or> y mod 400 = 0))"

definition DAYS_IN_MONTH :: "int list" where
  "DAYS_IN_MONTH = [-1, 31, 28, 31, 30, 31, 30, 31, 31, 30, 31, 30, 31]"

definition DAYS_BEFORE_MONTH :: "int list" where
  "DAYS_BEFORE_MONTH = [-1, 0, 31, 59, 90, 120, 151, 181, 212, 243, 273, 304, 334]"

definition days_before_year :: "int \<Rightarrow> int" where
  "days_before_year y = (let y1 = y - 1 in y1 * 365 + y1 div 4 - y1 div 100 + y1 div 400)"

definition days_in_month :: "int \<Rightarrow> int \<Rightarrow> int" where
  "days_in_month y m = (if m = 2 \<and> is_leap y then 29 else DAYS_IN_MONTH ! nat m)"

definition days_before_month :: "int \<Rightarrow> int \<Rightarrow> int" where
  "days_before_month y m = DAYS_BEFORE_MONTH ! nat m + (if m > 2 \<and> is_leap y then 1 else 0)"

definition ymd2ord :: "int \<Rightarrow> int \<Rightarrow> int \<Rightarrow> int" where
  "ymd2ord y m d = days_before_year y + days_before_month y m + d"

text \<open>\<^verbatim>\<open>_ord2ymd\<close>: the proleptic Gregorian date of an ordinal, by 400-, 100-, 4- and
  1-year cycles.\<close>

definition ord2ymd :: "int \<Rightarrow> int \<times> int \<times> int" where
  "ord2ymd n0 =
     (let n = n0 - 1;
          n400 = n div 146097; n = n mod 146097;
          y = n400 * 400 + 1;
          n100 = n div 36524; n = n mod 36524;
          n4 = n div 1461; n = n mod 1461;
          n1 = n div 365; n = n mod 365;
          y = y + n100 * 100 + n4 * 4 + n1
      in if n1 = 4 \<or> n100 = 4 then (y - 1, 12, 31)
         else
           let leapyear = (n1 = 3 \<and> (n4 \<noteq> 24 \<or> n100 = 3));
               m = (n + 50) div 32;
               preceding = DAYS_BEFORE_MONTH ! nat m + (if m > 2 \<and> leapyear then 1 else 0)
           in if preceding > n
              then
                let m' = m - 1;
                    preceding' = preceding
                      - (DAYS_IN_MONTH ! nat m' + (if m' = 2 \<and> leapyear then 1 else 0))
                in (y, m', n - preceding' + 1)
              else (y, m, n - preceding + 1))"

definition toordinal :: "datetime \<Rightarrow> int" where
  "toordinal dt = ymd2ord (year dt) (month dt) (day dt)"

text \<open>\<^verbatim>\<open>weekday()\<close>: Monday is 0.\<close>

definition weekday :: "datetime \<Rightarrow> int" where
  "weekday dt = (toordinal dt + 6) mod 7"

text \<open>Microseconds of the civil fields since 0001-01-01T00:00, and of the instant in UTC.\<close>

definition local_us :: "datetime \<Rightarrow> int" where
  "local_us dt =
     (((toordinal dt - 1) * 86400 + hour dt * 3600 + minute dt * 60 + second dt) * 1000000
      + microsecond dt)"

definition utc_us :: "datetime \<Rightarrow> int" where
  "utc_us dt = local_us dt - utcoffset dt * 1000000"

text \<open>Comparison of aware datetimes is comparison of instants.\<close>

definition dt_less :: "datetime \<Rightarrow> datetime \<Rightarrow> bool" where
  "dt_less a b = (utc_us a < utc_us b)"

definition dt_le :: "datetime \<Rightarrow> datetime \<Rightarrow> bool" where
  "dt_le a b = (utc_us a \<le> utc_us b)"

text \<open>\<^verbatim>\<open>datetime + timedelta\<close>, the timedelta given in microseconds: the fields are
  renormalised and the zone is kept; a result outside years 1..9999 raises OverflowError.\<close>

definition dt_add_us :: "datetime \<Rightarrow> int \<Rightarrow> exn + datetime" where
  "dt_add_us dt delta =
     (let total = local_us dt + delta;
          days = total div 86400000000 + 1;
          rest = total mod 86400000000;
          secs = rest div 1000000;
          us = rest mod 1000000
      in if 0 < days \<and> days \<le> MAXORDINAL
         then (case ord2ymd days of (y, m, d) \<Rightarrow>
                 Inr (dt\<lparr>year := y, month := m, day := d,
                         hour := secs div 3600, minute := secs mod 3600 div 60,
                         second := secs mod 3600 mod 60, microsecond := us\<rparr>))
         else Inl OverflowError)"

definition timedelta_days :: "int \<Rightarrow> int" where
  "timedelta_days d = d * 86400000000"

definition timedelta_hours :: "int \<Rightarrow> int" where
  "timedelta_hours h = h * 3600000000"

definition timedelta_seconds :: "int \<Rightarrow> int" where
  "timedelta_seconds s = s * 1000000"

text \<open>\<^verbatim>\<open>now.time()\<close> and the ordering of times of day.\<close>

definition time_of :: "datetime \<Rightarrow> pytime" where
  "time_of dt = \<lparr>t_hour = hour dt, t_minute = minute dt, t_second = second dt,
                 t_microsecond = microsecond dt\<rparr>"

definition time_us :: "pytime \<Rightarrow> int" where
  "time_us t = ((t_hour t * 3600 + t_minute t * 60 + t_second t) * 1000000 + t_microsecond t)"

definition time_less :: "pytime \<Rightarrow> pytime \<Rightarrow> bool" where
  "time_less a b = (time_us a < time_us b)"

text \<open>\<^verbatim>\<open>now.replace(hour=h, minute=m, second=0, microsecond=0)\<close>.\<close>

definition replace_hm :: "datetime \<Rightarrow> int \<Rightarrow> int \<Rightarrow> datetime" where
  "replace_hm dt h m = dt\<lparr>hour := h, minute := m, second := 0, microsecond := 0\<rparr>"

text \<open>\<^verbatim>\<open>strftime('%Y%m%d_%H%M%S')\<close>.\<close>

definition strftime_compact :: "datetime \<Rightarrow> string" where
  "strftime_compact dt =
     pad4 (nat (year dt)) @ pad2 (nat (month dt)) @ pad2 (nat (day dt)) @ ''_''
     @ pad2 (nat (hour dt)) @ pad2 (nat (minute dt)) @ pad2 (nat (second dt))"

section \<open>Data model (models.py)\<close>

text \<open>
  The status of a \<^verbatim>\<open>PlaybookExecution\<close>, one constructor for each of the field's choices.
\<close>

datatype exec_status = Pending | Approved | Running | Completed | Failed | Cancelled | Timeout

record server =
  server_name :: string
  hostname :: string

record ansible_playbook =
  pb_name :: string
  playbook_path :: string
  requires_approval :: bool
  is_dangerous :: bool
  timeout_minutes :: nat
  target_servers :: "server list"
  default_variables :: json
  required_variables :: "string list"
  allowed_users :: "nat list"
  execution_count :: nat
  success_count :: nat
  last_execution :: "datetime option"

record playbook_execution =
  playbook_id :: nat
  executor :: nat
  execution_id :: string
  variables :: json
  target_hosts :: json
  status :: exec_status
  started_at :: "datetime option"
  completed_at :: "datetime option"
  return_code :: "int option"
  stdout :: string
  stderr :: string
  approved_by :: "nat option"
  approved_at :: "datetime option"
  approval_notes :: string

record automation_schedule =
  sched_name :: string
  sched_playbook_id :: nat
  is_enabled :: bool
  schedule_type :: string
  scheduled_time :: pytime
  scheduled_date :: "pydate option"
  cron_expression :: string
  sched_variables :: json
  last_run :: "datetime option"
  next_run :: "datetime option"
  run_count :: nat

record automation_log =
  level :: string
  message :: string
  log_execution :: "nat option"


definition is_successful :: "playbook_execution \<Rightarrow> bool" where
  "is_successful e = (status e = Completed \<and> return_code e = Some 0)"

section \<open>The world the services act on\<close>

text \<open>
  The database tables are association lists keyed by primary key, the task queue is
  the list of queued \<^verbatim>\<open>execute_ansible_playbook\<close> calls, the file system maps a path
  to a directory or a file's content, and the clock counts microseconds since
  0001-01-01T00:00 UTC. \<^verbatim>\<open>proc_log\<close> records what \<^verbatim>\<open>subprocess.run\<close> did with
  the child process.
\<close>

datatype fs_node = Dir | File string

datatype proc_event =
    Spawned "string list" string nat
  | Exited int
  | Killed

record world =
  playbooks :: "(nat \<times> ansible_playbook) list"
  executions :: "(nat \<times> playbook_execution) list"
  schedules :: "(nat \<times> automation_schedule) list"
  next_pk :: nat
  logs :: "automation_log list"
  queue :: "nat list"
  files :: "(string \<times> fs_node) list"
  proc_log :: "proc_event list"
  clock :: int

text \<open>\<^verbatim>\<open>timezone.now()\<close>: the clock as an aware datetime in UTC.\<close>

definition timezone_now :: "world \<Rightarrow> datetime" where
  "timezone_now w =
     (let days = clock w div 86400000000 + 1;
          rest = clock w mod 86400000000;
          secs = rest div 1000000
      in case ord2ymd days of (y, m, d) \<Rightarrow>
           \<lparr>year = y, month = m, day = d, hour = secs div 3600,
            minute = secs mod 3600 div 60, second = secs mod 3600 mod 60,
            microsecond = rest mod 1000000, utcoffset = 0\<rparr>)"

definition save_execution :: "nat \<Rightarrow> playbook_execution \<Rightarrow> world \<Rightarrow> world" where
  "save_execution i e w = w\<lparr>executions := AList.update i e (executions w)\<rparr>"

definition save_playbook :: "nat \<Rightarrow> ansible_playbook \<Rightarrow> world \<Rightarrow> world" where
  "save_playbook i p w = w\<lparr>playbooks := AList.update i p (playbooks w)\<rparr>"

definition save_schedule :: "nat \<Rightarrow> automation_schedule \<Rightarrow> world \<Rightarrow> world" where
  "save_schedule i s w = w\<lparr>schedules := AList.update i s (schedules w)\<rparr>"

definition create_log :: "string \<Rightarrow> string \<Rightarrow> nat option \<Rightarrow> world \<Rightarrow> world" where
  "create_log lv msg ex w =
     w\<lparr>logs := logs w @ [\<lparr>level = lv, message = msg, log_execution = ex\<rparr>]\<rparr>"

text \<open>
  \<^verbatim>\<open>PlaybookExecution.objects.create\<close>: the row gets the next primary key;
  \<^verbatim>\<open>execution_id\<close> is declared unique, so a duplicate raises IntegrityError.
\<close>

definition create_execution ::
  "playbook_execution \<Rightarrow> world \<Rightarrow> exn + (nat \<times> world)" where
  "create_execution e w =
     (if execution_id e \<in> set (map (execution_id \<circ> snd) (executions w))
      then Inl (IntegrityError ''UNIQUE constraint failed: execution_id'')
      else Inr (next_pk w,
                w\<lparr>executions := executions w @ [(next_pk w, e)], next_pk := Suc (next_pk w)\<rparr>))"

section \<open>LocalRunner: AnsibleService (services.py)\<close>

text \<open>
  \<^verbatim>\<open>AnsibleService.__init__\<close> reads three optional settings; the repository's
  settings module defines none of them, so the defaults apply there.
\<close>

record settings =
  ANSIBLE_PATH :: "string option"
  ANSIBLE_WORKING_DIR :: "string option"
  ANSIBLE_TIMEOUT :: "nat option"

record service =
  ansible_path :: string
  working_dir :: string
  timeout :: nat

definition AnsibleService_init :: "settings \<Rightarrow> service" where
  "AnsibleService_init st =
     \<lparr>ansible_path = (case ANSIBLE_PATH st of Some p \<Rightarrow> p | None \<Rightarrow> ''ansible-playbook''),
      working_dir = (case ANSIBLE_WORKING_DIR st of Some d \<Rightarrow> d | None \<Rightarrow> ''/tmp/ansible''),
      timeout = (case ANSIBLE_TIMEOUT st of Some t \<Rightarrow> t | None \<Rightarrow> 1800)\<rparr>"

definition repo_settings :: settings where
  "repo_settings = \<lparr>ANSIBLE_PATH = None, ANSIBLE_WORKING_DIR = None, ANSIBLE_TIMEOUT = None\<rparr>"

text \<open>
  What the child process does, as the environment decides it: it exits after some
  seconds with a return code and its output, it never exits by itself, or it cannot be
  started at all (\<^verbatim>\<open>subprocess.run\<close> raises, for instance FileNotFoundError).
\<close>

datatype proc_behaviour =
    Exits nat int string string
  | Hangs
  | SpawnError string

text \<open>
  The program points of \<^verbatim>\<open>execute_playbook\<close> at which a database or file system
  operation can raise. \<^verbatim>\<open>faults\<close> of the environment says which of them do, and with
  which message.
\<close>

datatype step =
    S_get
  | S_log_start
  | S_save_running
  | S_mkdtemp
  | S_inventory
  | S_vars
  | S_log_cmd
  | S_log_result
  | S_playbook_save
  | S_execution_save
  | S_rmtree
  | S_handler_save
  | S_handler_log

record run_env =
  svc :: service
  proc :: "string list \<Rightarrow> proc_behaviour"
  faults :: "step \<Rightarrow> string option"
  tmp_name :: string
  json_loads :: "string \<Rightarrow> json option"
  json_dumps :: "json \<Rightarrow> string"
  py_str :: "json \<Rightarrow> string"

text \<open>
  A raise inside the \<^verbatim>\<open>try\<close> block carries the exception, the local variable
  \<^verbatim>\<open>execution\<close> as it is in memory at that point (unbound before line 28 returns)
  and the world reached so far.
\<close>

type_synonym raised = "exn \<times> playbook_execution option \<times> world"

definition nl :: string where
  "nl = [CHR 0x0A]"

definition log_info :: "string \<Rightarrow> nat \<Rightarrow> world \<Rightarrow> world" where
  "log_info msg ex w = create_log ''info'' msg (Some ex) w"

definition log_error :: "string \<Rightarrow> nat \<Rightarrow> world \<Rightarrow> world" where
  "log_error msg ex w = create_log ''error'' msg (Some ex) w"

text \<open>\<^verbatim>\<open>' '.join(cmd)\<close> and \<^verbatim>\<open>', '.join(xs)\<close>.\<close>

fun join :: "string \<Rightarrow> string list \<Rightarrow> string" where
  "join sep [] = []"
| "join sep [x] = x"
| "join sep (x # y # ys) = x @ sep @ join sep (y # ys)"

subsection \<open>Lines 104 to 179: temporary files and the command\<close>

definition create_temp_directory :: "run_env \<Rightarrow> world \<Rightarrow> string \<times> world" where
  "create_temp_directory env w =
     (let temp_dir = ''/tmp/ansible_'' @ tmp_name env
      in (temp_dir, w\<lparr>files := AList.update temp_dir Dir (files w)\<rparr>))"

definition write_file :: "string \<Rightarrow> string \<Rightarrow> world \<Rightarrow> world" where
  "write_file path content w = w\<lparr>files := AList.update path (File content) (files w)\<rparr>"

text \<open>Iterating a decoded value with \<^verbatim>\<open>for\<close>: a list gives its elements, a string its
  characters, a dict its keys; anything else is not iterable (TypeError).\<close>

fun py_iter :: "json \<Rightarrow> json list option" where
  "py_iter (JList xs) = Some xs"
| "py_iter (JStr s) = Some (map (\<lambda>c. JStr [c]) s)"
| "py_iter (JDict kvs) = Some (map (JStr \<circ> fst) kvs)"
| "py_iter _ = None"

text \<open>\<^verbatim>\<open>f"{host}"\<close>: a string is itself, any other value is printed by \<^verbatim>\<open>str\<close>.\<close>

definition fstr :: "run_env \<Rightarrow> json \<Rightarrow> string" where
  "fstr env v = (case v of JStr s \<Rightarrow> s | _ \<Rightarrow> py_str env v)"

text \<open>Lines 114 to 122: which hosts go into the inventory.\<close>

definition inventory_hosts :: "playbook_execution \<Rightarrow> ansible_playbook \<Rightarrow> json" where
  "inventory_hosts execution playbook =
     (let hosts = (if truthy (target_hosts execution) then target_hosts execution else JList []);
          hosts = (if \<not> truthy hosts \<and> target_servers playbook \<noteq> []
                   then JList (map (\<lambda>server. JStr (hostname server)) (target_servers playbook))
                   else hosts);
          hosts = (if \<not> truthy hosts then JList [JStr ''localhost''] else hosts)
      in hosts)"

definition create_inventory_file ::
  "run_env \<Rightarrow> string \<Rightarrow> playbook_execution \<Rightarrow> ansible_playbook \<Rightarrow> world
   \<Rightarrow> exn + (string \<times> world)" where
  "create_inventory_file env temp_dir execution playbook w =
     (let inventory_path = temp_dir @ ''/inventory.ini'';
          hosts = inventory_hosts execution playbook
      in case py_iter hosts of
           None \<Rightarrow> Inl (TypeError ''object is not iterable'')
         | Some hs \<Rightarrow>
             (let inventory_content =
                    foldl (\<lambda>acc host. acc @ fstr env host @ nl) (''[targets]'' @ nl) hs
              in case faults env S_inventory of
                   Some m \<Rightarrow> Inl (OtherError m)
                 | None \<Rightarrow> Inr (inventory_path, write_file inventory_path inventory_content w)))"

text \<open>
  \<^verbatim>\<open>variables.update(x)\<close>: \<^verbatim>\<open>x\<close> is a dict, or an iterable of key/value pairs.
  Pairs are taken here when they are two-element lists with a string key or
  two-character strings; every other element, and a value that is not iterable, raises.
\<close>

fun pair_of :: "json \<Rightarrow> (string \<times> json) option" where
  "pair_of (JList [JStr k, v]) = Some (k, v)"
| "pair_of (JStr [a, b]) = Some ([a], JStr [b])"
| "pair_of _ = None"

fun pairs_of :: "json list \<Rightarrow> pydict option" where
  "pairs_of [] = Some []"
| "pairs_of (x # xs) =
     (case pair_of x of
        None \<Rightarrow> None
      | Some kv \<Rightarrow> (case pairs_of xs of None \<Rightarrow> None | Some kvs \<Rightarrow> Some (kv # kvs)))"

definition py_update :: "json \<Rightarrow> json \<Rightarrow> exn + json" where
  "py_update target x =
     (case target of
        JDict d \<Rightarrow>
          (case x of
             JDict kvs \<Rightarrow> Inr (JDict (dict_update d kvs))
           | _ \<Rightarrow>
             (case py_iter x of
                None \<Rightarrow> Inl (TypeError ''object is not iterable'')
              | Some xs \<Rightarrow>
                  (case pairs_of xs of
                     None \<Rightarrow> Inl (ValueError ''dictionary update sequence element'')
                   | Some kvs \<Rightarrow> Inr (JDict (dict_update d kvs)))))
      | _ \<Rightarrow> Inl (AttributeError ''object has no attribute update''))"

text \<open>\<^verbatim>\<open>default_variables.copy()\<close>: dicts and lists have the method.\<close>

definition py_copy :: "json \<Rightarrow> exn + json" where
  "py_copy v =
     (case v of
        JDict d \<Rightarrow> Inr (JDict d)
      | JList xs \<Rightarrow> Inr (JList xs)
      | _ \<Rightarrow> Inl (AttributeError ''object has no attribute copy''))"

text \<open>Lines 139 to 150: the variables of the run, the execution's over the defaults.\<close>

definition merged_variables ::
  "run_env \<Rightarrow> playbook_execution \<Rightarrow> ansible_playbook \<Rightarrow> exn + json" where
  "merged_variables env execution playbook =
     (case py_copy (default_variables playbook) of
        Inl e \<Rightarrow> Inl e
      | Inr vars \<Rightarrow>
          (if truthy (variables execution)
           then (case variables execution of
                   JStr s \<Rightarrow>
                     (case json_loads env s of
                        None \<Rightarrow> Inr vars
                      | Some execution_vars \<Rightarrow> py_update vars execution_vars)
                 | JDict d \<Rightarrow> py_update vars (JDict d)
                 | _ \<Rightarrow> Inr vars)
           else Inr vars))"

definition create_vars_file ::
  "run_env \<Rightarrow> string \<Rightarrow> playbook_execution \<Rightarrow> ansible_playbook \<Rightarrow> world
   \<Rightarrow> exn + (string \<times> world)" where
  "create_vars_file env temp_dir execution playbook w =
     (let vars_path = temp_dir @ ''/vars.json''
      in case merged_variables env execution playbook of
           Inl e \<Rightarrow> Inl e
         | Inr vars \<Rightarrow>
             (case faults env S_vars of
                Some m \<Rightarrow> Inl (OtherError m)
              | None \<Rightarrow> Inr (vars_path, write_file vars_path (json_dumps env vars) w)))"

definition build_ansible_command ::
  "service \<Rightarrow> string \<Rightarrow> string \<Rightarrow> string \<Rightarrow> ansible_playbook \<Rightarrow> string list" where
  "build_ansible_command sv pb_path inventory_file vars_file playbook =
     (let cmd = [ansible_path sv, pb_path, ''-i'', inventory_file,
                 ''--extra-vars'', ''@'' @ vars_file, ''-v'']
      in if timeout_minutes playbook \<noteq> 0
         then cmd @ [''--timeout'', str_nat (timeout_minutes playbook * 60)]
         else cmd)"

text \<open>\<^verbatim>\<open>shutil.rmtree\<close>: the directory and everything below it.\<close>

definition rmtree :: "string \<Rightarrow> world \<Rightarrow> world" where
  "rmtree d w =
     w\<lparr>files := filter (\<lambda>(p, n). p \<noteq> d \<and> \<not> prefix (d @ ''/'') p) (files w)\<rparr>"

text \<open>\<^verbatim>\<open>_cleanup_temp_files\<close> swallows a failing \<^verbatim>\<open>rmtree\<close> (it logs a warning to the
  process log only).\<close>

definition cleanup_temp_files :: "run_env \<Rightarrow> string \<Rightarrow> world \<Rightarrow> world" where
  "cleanup_temp_files env temp_dir w =
     (case faults env S_rmtree of Some m \<Rightarrow> w | None \<Rightarrow> rmtree temp_dir w)"

subsection \<open>subprocess.run with a timeout\<close>

text \<open>
  \<^verbatim>\<open>subprocess.run(cmd, cwd=..., capture_output=True, text=True, timeout=t)\<close> waits for
  the child at most \<^verbatim>\<open>t\<close> seconds; when the wait expires it kills the child and raises
  TimeoutExpired. The clock advances by the time waited.
\<close>

record completed_process =
  returncode :: int
  cp_stdout :: string
  cp_stderr :: string

definition advance :: "nat \<Rightarrow> world \<Rightarrow> world" where
  "advance secs w = w\<lparr>clock := clock w + int secs * 1000000\<rparr>"

definition subprocess_run ::
  "run_env \<Rightarrow> string list \<Rightarrow> string \<Rightarrow> nat \<Rightarrow> world \<Rightarrow> (exn \<times> world) + (completed_process \<times> world)"
  where
  "subprocess_run env cmd cwd t w =
     (case proc env cmd of
        SpawnError m \<Rightarrow> Inl (OtherError m, w)
      | Hangs \<Rightarrow>
          Inl (TimeoutExpired,
               advance t (w\<lparr>proc_log := proc_log w @ [Spawned cmd cwd t, Killed]\<rparr>))
      | Exits d rc out err \<Rightarrow>
          (if d \<le> t
           then Inr (\<lparr>returncode = rc, cp_stdout = out, cp_stderr = err\<rparr>,
                     advance d (w\<lparr>proc_log := proc_log w @ [Spawned cmd cwd t, Exited rc]\<rparr>))
           else Inl (TimeoutExpired,
                     advance t (w\<lparr>proc_log := proc_log w @ [Spawned cmd cwd t, Killed]\<rparr>))))"

subsection \<open>Lines 25 to 102: execute\_playbook\<close>

text \<open>
  The messages of the source are Turkish; they are written here in ASCII letters.
  Lines 28 to 37: the execution and its playbook are loaded, the start is logged, and the
  execution is saved as running. No condition on the status, on the playbook's
  \<^verbatim>\<open>requires_approval\<close> or on \<^verbatim>\<open>approved_by\<close> is checked.
\<close>

definition begin_run ::
  "run_env \<Rightarrow> nat \<Rightarrow> world \<Rightarrow> raised + (playbook_execution \<times> ansible_playbook \<times> world)" where
  "begin_run env eid w =
     (case faults env S_get of
        Some m \<Rightarrow> Inl (OtherError m, None, w)
      | None \<Rightarrow>
     (case map_of (executions w) eid of
        None \<Rightarrow> Inl (DoesNotExist, None, w)
      | Some execution \<Rightarrow>
     (case map_of (playbooks w) (playbook_id execution) of
        None \<Rightarrow> Inl (DoesNotExist, Some execution, w)
      | Some playbook \<Rightarrow>
     (case faults env S_log_start of
        Some m \<Rightarrow> Inl (OtherError m, Some execution, w)
      | None \<Rightarrow>
     (let w1 = log_info (''Playbook calistirma baslatildi: '' @ pb_name playbook) eid w;
          execution1 = execution\<lparr>status := Running, started_at := Some (timezone_now w1)\<rparr>
      in case faults env S_save_running of
           Some m \<Rightarrow> Inl (OtherError m, Some execution1, w1)
         | None \<Rightarrow> Inr (execution1, playbook, save_execution eid execution1 w1))))))"

text \<open>Lines 63 to 87, after \<^verbatim>\<open>subprocess.run\<close> has returned.\<close>

definition record_result ::
  "run_env \<Rightarrow> nat \<Rightarrow> string \<Rightarrow> playbook_execution \<Rightarrow> ansible_playbook \<Rightarrow> completed_process
   \<Rightarrow> world \<Rightarrow> raised + (playbook_execution \<times> world)" where
  "record_result env eid temp_dir execution playbook result w =
     (let execution1 = execution\<lparr>return_code := Some (returncode result),
                                  stdout := cp_stdout result,
                                  stderr := cp_stderr result,
                                  completed_at := Some (timezone_now w)\<rparr>;
          execution2 = execution1\<lparr>status := (if returncode result = 0 then Completed else Failed)\<rparr>;
          playbook1 = (if returncode result = 0
                       then playbook\<lparr>success_count := success_count playbook + 1\<rparr>
                       else playbook)
      in case faults env S_log_result of
           Some m \<Rightarrow> Inl (OtherError m, Some execution2, w)
         | None \<Rightarrow>
      (let w1 = (if returncode result = 0
                 then log_info ''Playbook basariyla tamamlandi'' eid w
                 else log_error (''Playbook basarisiz: '' @ cp_stderr result) eid w);
           playbook2 = playbook1\<lparr>execution_count := execution_count playbook1 + 1,
                                  last_execution := Some (timezone_now w1)\<rparr>
       in case faults env S_playbook_save of
            Some m \<Rightarrow> Inl (OtherError m, Some execution2, w1)
          | None \<Rightarrow>
       (let w2 = save_playbook (playbook_id execution2) playbook2 w1
        in case faults env S_execution_save of
             Some m \<Rightarrow> Inl (OtherError m, Some execution2, w2)
           | None \<Rightarrow>
               Inr (execution2, cleanup_temp_files env temp_dir (save_execution eid execution2 w2)))))"

text \<open>Lines 39 to 61, then the above. The wait is bounded by the service's
  \<^verbatim>\<open>self.timeout\<close>.\<close>

definition finish_run ::
  "run_env \<Rightarrow> nat \<Rightarrow> playbook_execution \<Rightarrow> ansible_playbook \<Rightarrow> world
   \<Rightarrow> raised + (playbook_execution \<times> world)" where
  "finish_run env eid execution playbook w =
     (case faults env S_mkdtemp of
        Some m \<Rightarrow> Inl (OtherError m, Some execution, w)
      | None \<Rightarrow>
     (case create_temp_directory env w of (temp_dir, w1) \<Rightarrow>
     (case create_inventory_file env temp_dir execution playbook w1 of
        Inl e \<Rightarrow> Inl (e, Some execution, w1)
      | Inr (inventory_file, w2) \<Rightarrow>
     (case create_vars_file env temp_dir execution playbook w2 of
        Inl e \<Rightarrow> Inl (e, Some execution, w2)
      | Inr (vars_file, w3) \<Rightarrow>
     (let cmd = build_ansible_command (svc env) (playbook_path playbook)
                  inventory_file vars_file playbook
      in case faults env S_log_cmd of
           Some m \<Rightarrow> Inl (OtherError m, Some execution, w3)
         | None \<Rightarrow>
      (let w4 = log_info (''Ansible komutu: '' @ join '' '' cmd) eid w3
       in case subprocess_run env cmd temp_dir (timeout (svc env)) w4 of
            Inl (e, w5) \<Rightarrow> Inl (e, Some execution, w5)
          | Inr (result, w5) \<Rightarrow>
              record_result env eid temp_dir execution playbook result w5))))))"

definition try_body ::
  "run_env \<Rightarrow> nat \<Rightarrow> world \<Rightarrow> raised + (playbook_execution \<times> world)" where
  "try_body env eid w =
     (case begin_run env eid w of
        Inl r \<Rightarrow> Inl r
      | Inr (execution, playbook, w1) \<Rightarrow> finish_run env eid execution playbook w1)"

text \<open>Lines 89 to 94 and 96 to 102: the two handlers. Neither removes the temporary
  directory, and neither touches the playbook. With \<^verbatim>\<open>execution\<close> unbound the handler
  itself raises.\<close>

definition handle_timeout ::
  "run_env \<Rightarrow> nat \<Rightarrow> playbook_execution option \<Rightarrow> world \<Rightarrow> (exn + playbook_execution) \<times> world"
  where
  "handle_timeout env eid loc w =
     (case loc of
        None \<Rightarrow> (Inl UnboundLocalError, w)
      | Some execution \<Rightarrow>
     (let execution1 = execution\<lparr>status := Timeout, completed_at := Some (timezone_now w)\<rparr>
      in case faults env S_handler_save of
           Some m \<Rightarrow> (Inl (OtherError m), w)
         | None \<Rightarrow>
      (let w1 = save_execution eid execution1 w
       in case faults env S_handler_log of
            Some m \<Rightarrow> (Inl (OtherError m), w1)
          | None \<Rightarrow> (Inr execution1, log_error ''Playbook zaman asimina ugradi'' eid w1))))"

definition handle_exception ::
  "run_env \<Rightarrow> nat \<Rightarrow> exn \<Rightarrow> playbook_execution option \<Rightarrow> world
   \<Rightarrow> (exn + playbook_execution) \<times> world" where
  "handle_exception env eid e loc w =
     (case loc of
        None \<Rightarrow> (Inl UnboundLocalError, w)
      | Some execution \<Rightarrow>
     (let execution1 = execution\<lparr>status := Failed, stderr := exn_str e,
                                  completed_at := Some (timezone_now w)\<rparr>
      in case faults env S_handler_save of
           Some m \<Rightarrow> (Inl (OtherError m), w)
         | None \<Rightarrow>
      (let w1 = save_execution eid execution1 w
       in case faults env S_handler_log of
            Some m \<Rightarrow> (Inl (OtherError m), w1)
          | None \<Rightarrow>
              (Inr execution1,
               log_error (''Playbook calistirma hatasi: '' @ exn_str e) eid w1))))"

definition execute_playbook ::
  "run_env \<Rightarrow> nat \<Rightarrow> world \<Rightarrow> (exn + playbook_execution) \<times> world" where
  "execute_playbook env eid w =
     (case try_body env eid w of
        Inr (execution, w1) \<Rightarrow> (Inr execution, w1)
      | Inl (e, loc, w1) \<Rightarrow>
          (if e = TimeoutExpired then handle_timeout env eid loc w1
           else handle_exception env eid e loc w1))"

section \<open>PlaybookValidator (services.py, lines 222 to 245)\<close>

definition validate_variables ::
  "(string \<Rightarrow> json option) \<Rightarrow> json \<Rightarrow> string list \<Rightarrow> bool \<times> string" where
  "validate_variables loads vars required_vars =
     (if required_vars = [] then (True, ''Zorunlu degisken yok'')
      else
        (case (case vars of JStr s \<Rightarrow> loads s | _ \<Rightarrow> Some vars) of
           None \<Rightarrow> (False, ''Degiskenler JSON formatinda olmali'')
         | Some decoded \<Rightarrow>
             (case decoded of
                JDict d \<Rightarrow>
                  (let missing_vars = filter (\<lambda>var. var \<notin> set (dict_keys d)) required_vars
                   in if missing_vars \<noteq> []
                      then (False, ''Eksik zorunlu degiskenler: '' @ join '', '' missing_vars)
                      else (True, ''Tum zorunlu degiskenler mevcut''))
              | _ \<Rightarrow> (False, ''Degiskenler dict formatinda olmali''))))"

section \<open>The caller-facing operations (api\_views.py, views.py)\<close>

record user =
  uid :: nat
  is_staff :: bool

record request =
  req_user :: user
  req_body :: string

record json_response =
  http_status :: nat
  success :: bool
  body_text :: string
  resp_execution :: "nat option"

record api_env =
  loads :: "string \<Rightarrow> json option"
  to_str :: "json \<Rightarrow> string"
  uuid4 :: string

definition error_response :: "nat \<Rightarrow> string \<Rightarrow> json_response" where
  "error_response code msg =
     \<lparr>http_status = code, success = False, body_text = msg, resp_execution = None\<rparr>"

definition ok_response :: "string \<Rightarrow> nat option \<Rightarrow> json_response" where
  "ok_response msg ex = \<lparr>http_status = 200, success = True, body_text = msg, resp_execution = ex\<rparr>"

text \<open>\<^verbatim>\<open>json.loads(request.body) if request.body else {}\<close>, then \<^verbatim>\<open>data.get\<close>: a body
  that does not parse, or that is not an object, raises inside the view's \<^verbatim>\<open>try\<close>.\<close>

definition request_data :: "api_env \<Rightarrow> request \<Rightarrow> exn + pydict" where
  "request_data env req =
     (if req_body req = [] then Inr []
      else (case loads env (req_body req) of
              None \<Rightarrow> Inl (ValueError ''Expecting value'')
            | Some (JDict d) \<Rightarrow> Inr d
            | Some _ \<Rightarrow> Inl (AttributeError ''object has no attribute get'')))"

definition new_execution ::
  "nat \<Rightarrow> nat \<Rightarrow> string \<Rightarrow> json \<Rightarrow> json \<Rightarrow> exec_status \<Rightarrow> playbook_execution" where
  "new_execution pb usr ident vars hosts st =
     \<lparr>playbook_id = pb, executor = usr, execution_id = ident, variables = vars,
      target_hosts = hosts, status = st, started_at = None, completed_at = None,
      return_code = None, stdout = [], stderr = [], approved_by = None, approved_at = None,
      approval_notes = []\<rparr>"

text \<open>\<^verbatim>\<open>execute_ansible_playbook.delay(id)\<close>: the call is put on the task queue.\<close>

definition delay :: "nat \<Rightarrow> world \<Rightarrow> world" where
  "delay eid w = w\<lparr>queue := queue w @ [eid]\<rparr>"

text \<open>\<^verbatim>\<open>data.get(key, default)\<close>.\<close>

definition get_default :: "pydict \<Rightarrow> string \<Rightarrow> json \<Rightarrow> json" where
  "get_default d key dflt = (case map_of d key of Some v \<Rightarrow> v | None \<Rightarrow> dflt)"

text \<open>api\_views.py, lines 44 to 67: the execution is created, pending when the playbook
  requires approval and approved otherwise, and queued in the second case.\<close>

definition create_and_dispatch ::
  "api_env \<Rightarrow> request \<Rightarrow> nat \<Rightarrow> ansible_playbook \<Rightarrow> json \<Rightarrow> json \<Rightarrow> world
   \<Rightarrow> json_response \<times> world" where
  "create_and_dispatch env req pbid playbook vars hosts w =
     (case create_execution
             (new_execution pbid (uid (req_user req)) (take 8 (uuid4 env)) vars hosts
                (if requires_approval playbook then Pending else Approved)) w of
        Inl e \<Rightarrow> (error_response 500 (exn_str e), w)
      | Inr (pk, w1) \<Rightarrow>
          (if \<not> requires_approval playbook
           then (ok_response ''Playbook calistirilmaya baslandi'' (Some pk), delay pk w1)
           else (ok_response ''Playbook calistirma talebi onaya gonderildi'' (Some pk), w1)))"

text \<open>api\_views.py, lines 17 to 73.\<close>

definition api_execute_playbook ::
  "api_env \<Rightarrow> request \<Rightarrow> nat \<Rightarrow> world \<Rightarrow> json_response \<times> world" where
  "api_execute_playbook env req pbid w =
     (case map_of (playbooks w) pbid of
        None \<Rightarrow> (error_response 500 ''No AnsiblePlaybook matches the given query.'', w)
      | Some playbook \<Rightarrow>
     (if allowed_users playbook \<noteq> [] \<and> uid (req_user req) \<notin> set (allowed_users playbook)
      then (error_response 403 ''Bu playbook'u calistirma izniniz yok'', w)
      else
     (case request_data env req of
        Inl e \<Rightarrow> (error_response 500 (exn_str e), w)
      | Inr data \<Rightarrow>
     (let vars = get_default data ''variables'' (JDict []);
          hosts = get_default data ''target_hosts'' (JList [])
      in case validate_variables (loads env) vars (required_variables playbook) of
           (is_valid, msg) \<Rightarrow>
             (if \<not> is_valid then (error_response 400 msg, w)
              else create_and_dispatch env req pbid playbook vars hosts w)))))"




text \<open>
  views.py, lines 144 to 170: the form view. On POST it creates the execution from the
  posted fields as they are (the variables are the posted string) and redirects to the
  execution's page; it neither validates the variables nor queues the run.
\<close>

record form_request =
  form_user :: user
  is_post :: bool
  post_variables :: "string option"
  post_target_hosts :: "string list"

datatype view_response =
    Redirect nat
  | Render
  | Http404
  | ServerError exn

definition view_execute_playbook ::
  "api_env \<Rightarrow> form_request \<Rightarrow> nat \<Rightarrow> world \<Rightarrow> view_response \<times> world" where
  "view_execute_playbook env req pbid w =
     (case map_of (playbooks w) pbid of
        None \<Rightarrow> (Http404, w)
      | Some playbook \<Rightarrow>
          (if is_post req
           then (case create_execution
                        (new_execution pbid (uid (form_user req)) (take 8 (uuid4 env))
                           (JStr (case post_variables req of Some v \<Rightarrow> v | None \<Rightarrow> ''{}''))
                           (JList (map JStr (post_target_hosts req)))
                           (if requires_approval playbook then Pending else Approved)) w of
                   Inl e \<Rightarrow> (ServerError e, w)
                 | Inr (pk, w1) \<Rightarrow> (Redirect pk, w1))
           else (Render, w)))"

section \<open>Queued work (tasks.py)\<close>




section \<open>Scheduler: ScheduleManager (services.py, lines 252 to 323)\<close>

text \<open>
  \<^verbatim>\<open>timezone.make_aware(datetime.combine(date, time))\<close>: the naive local fields get the
  offset that the configured zone has at that local time; the zone's rule is a parameter.
\<close>

definition make_aware :: "(pydate \<Rightarrow> pytime \<Rightarrow> int) \<Rightarrow> pydate \<Rightarrow> pytime \<Rightarrow> datetime" where
  "make_aware zone d t =
     \<lparr>year = d_year d, month = d_month d, day = d_day d, hour = t_hour t,
      minute = t_minute t, second = t_second t, microsecond = t_microsecond t,
      utcoffset = zone d t\<rparr>"

definition calculate_next_run ::
  "(pydate \<Rightarrow> pytime \<Rightarrow> int) \<Rightarrow> automation_schedule \<Rightarrow> world \<Rightarrow> exn + datetime option" where
  "calculate_next_run zone schedule w =
     (let now = timezone_now w
      in if schedule_type schedule = ''once''
         then (case scheduled_date schedule of
                 Some d \<Rightarrow>
                   (let next_run = make_aware zone d (scheduled_time schedule)
                    in if dt_less now next_run then Inr (Some next_run) else Inr None)
               | None \<Rightarrow> Inr None)
         else if schedule_type schedule = ''daily''
         then (let next_run = replace_hm now (t_hour (scheduled_time schedule))
                                (t_minute (scheduled_time schedule))
               in if dt_le next_run now
                  then (case dt_add_us next_run (timedelta_days 1) of
                          Inl e \<Rightarrow> Inl e
                        | Inr t \<Rightarrow> Inr (Some t))
                  else Inr (Some next_run))
         else if schedule_type schedule = ''weekly''
         then (let days_ahead = 0 - weekday now;
                   days_ahead = (if days_ahead \<le> 0 then days_ahead + 7 else days_ahead)
               in case dt_add_us now (timedelta_days days_ahead) of
                    Inl e \<Rightarrow> Inl e
                  | Inr t \<Rightarrow>
                      Inr (Some (replace_hm t (t_hour (scheduled_time schedule))
                                   (t_minute (scheduled_time schedule)))))
         else if schedule_type schedule = ''monthly''
         then (if day now = 1 \<and> time_less (time_of now) (scheduled_time schedule)
               then Inr (Some (replace_hm now (t_hour (scheduled_time schedule))
                                 (t_minute (scheduled_time schedule))))
               else
                 (if month now = 12
                  then (if year now + 1 > 9999 then Inl (ValueError ''year is out of range'')
                        else Inr (Some (replace_hm (now\<lparr>year := year now + 1, month := 1, day := 1\<rparr>)
                                          (t_hour (scheduled_time schedule))
                                          (t_minute (scheduled_time schedule)))))
                  else Inr (Some (replace_hm (now\<lparr>month := month now + 1, day := 1\<rparr>)
                                    (t_hour (scheduled_time schedule))
                                    (t_minute (scheduled_time schedule))))))
         else if schedule_type schedule = ''cron''
         then (case dt_add_us now (timedelta_hours 1) of
                 Inl e \<Rightarrow> Inl e
               | Inr t \<Rightarrow> Inr (Some t))
         else Inr None)"

subsection \<open>process\_scheduled\_playbooks (tasks.py, lines 42 to 100)\<close>

text \<open>
  One pass of the loop body for a due schedule: the execution is created as approved,
  whatever the playbook's \<^verbatim>\<open>requires_approval\<close> says, and queued; then the schedule's
  statistics and next run are saved. An exception in the body is logged and the loop
  goes on.
\<close>

definition run_due_schedule ::
  "(pydate \<Rightarrow> pytime \<Rightarrow> int) \<Rightarrow> datetime \<Rightarrow> nat \<times> automation_schedule \<Rightarrow> nat \<times> world
   \<Rightarrow> nat \<times> world" where
  "run_due_schedule zone now row acc =
     (case row of (sid, schedule) \<Rightarrow>
      case acc of (executed_count, w) \<Rightarrow>
     (case map_of (playbooks w) (sched_playbook_id schedule) of
        None \<Rightarrow>
          (executed_count,
           create_log ''error''
             (''Programli gorev hatasi '' @ sched_name schedule @ '': '' @ exn_str DoesNotExist)
             None w)
      | Some playbook \<Rightarrow>
     (case create_execution
             (new_execution (sched_playbook_id schedule) 1
                (''scheduled_'' @ str_nat sid @ ''_'' @ strftime_compact now)
                (sched_variables schedule) (JList []) Approved) w of
        Inl e \<Rightarrow>
          (executed_count,
           create_log ''error''
             (''Programli gorev hatasi '' @ sched_name schedule @ '': '' @ exn_str e) None w)
      | Inr (pk, w1) \<Rightarrow>
     (let w2 = delay pk w1;
          schedule1 = schedule\<lparr>last_run := Some now, run_count := run_count schedule + 1\<rparr>
      in case calculate_next_run zone schedule1 w2 of
           Inl e \<Rightarrow>
             (executed_count,
              create_log ''error''
                (''Programli gorev hatasi '' @ sched_name schedule @ '': '' @ exn_str e) None w2)
         | Inr nr \<Rightarrow>
             (executed_count + 1,
              create_log ''info'' (''Programli gorev calistirildi: '' @ sched_name schedule)
                (Some pk) (save_schedule sid (schedule1\<lparr>next_run := nr\<rparr>) w2))))))"

text \<open>The rows of the schedule table are kept in the order in which the query returns
  them.\<close>

definition due_schedules :: "datetime \<Rightarrow> world \<Rightarrow> (nat \<times> automation_schedule) list" where
  "due_schedules now w =
     filter (\<lambda>(sid, s). is_enabled s \<and> (case next_run s of Some t \<Rightarrow> dt_le t now | None \<Rightarrow> False))
       (schedules w)"

definition process_scheduled_playbooks ::
  "(pydate \<Rightarrow> pytime \<Rightarrow> int) \<Rightarrow> world \<Rightarrow> nat \<times> world" where
  "process_scheduled_playbooks zone w =
     (let now = timezone_now w
      in foldl (\<lambda>acc row. run_due_schedule zone now row acc) (0, w) (due_schedules now w))"

section \<open>RemoteOrchestratorAdapter: AnsibleTowerService (services.py, lines 326 to 583)\<close>

record tower_service =
  tower_url :: string
  username :: string
  password :: string
  token :: string
  verify_ssl :: bool
  http_timeout :: nat

datatype auth = Bearer string | Basic string string

text \<open>Lines 340 to 358: a session cannot be made without a token or a user name with a
  password.\<close>

definition get_session :: "tower_service \<Rightarrow> exn + auth" where
  "get_session sv =
     (if token sv \<noteq> [] then Inr (Bearer (token sv))
      else if username sv \<noteq> [] \<and> password sv \<noteq> [] then Inr (Basic (username sv) (password sv))
      else Inl (ValueError ''Token veya username/password gerekli''))"

datatype job_status =
    JPending | JWaiting | JRunning | Successful | JFailed | JError | Canceled

record job_template =
  jt_name :: string
  tower_id :: nat
  jt_job_type :: string
  jt_verbosity :: int
  usage_count :: nat
  last_used :: "datetime option"

record ansible_job_execution =
  je_template :: nat
  je_executor :: nat
  je_execution_id :: string
  tower_job_id :: "int option"
  survey_answers :: json
  extra_vars :: json
  limit :: string
  tags :: string
  skip_tags :: string
  job_type :: string
  verbosity :: int
  je_status :: job_status
  je_started_at :: "datetime option"
  finished_at :: "datetime option"
  elapsed :: "json option"
  result_stdout :: string
  result_stderr :: string

definition is_running :: "ansible_job_execution \<Rightarrow> bool" where
  "is_running je = (je_status je \<in> set [JPending, JWaiting, JRunning])"

record job_log =
  jl_execution :: nat
  jl_level :: string
  jl_message :: string

datatype http_request =
    POST string auth
  | GET string auth

text \<open>What the orchestrator answers: no answer at all (a connection error), or a status
  code with the body as text and, when it parses, as JSON.\<close>

datatype http_reply =
    ConnectionError string
  | Reply nat string "json option"

record tower_world =
  templates :: "(nat \<times> job_template) list"
  job_executions :: "(nat \<times> ansible_job_execution) list"
  job_logs :: "job_log list"
  next_job_pk :: nat
  sent :: "http_request list"
  tower_clock :: datetime

definition save_job :: "nat \<Rightarrow> ansible_job_execution \<Rightarrow> tower_world \<Rightarrow> tower_world" where
  "save_job pk je tw = tw\<lparr>job_executions := AList.update pk je (job_executions tw)\<rparr>"

definition log_job_event :: "nat \<Rightarrow> string \<Rightarrow> string \<Rightarrow> tower_world \<Rightarrow> tower_world" where
  "log_job_event pk lv msg tw =
     tw\<lparr>job_logs := job_logs tw @ [\<lparr>jl_execution = pk, jl_level = lv, jl_message = msg\<rparr>]\<rparr>"

text \<open>\<^verbatim>\<open>response.raise_for_status()\<close> then \<^verbatim>\<open>response.json()\<close>; both failures are
  RequestExceptions.\<close>

definition checked_json :: "http_reply \<Rightarrow> exn + json" where
  "checked_json r =
     (case r of
        ConnectionError m \<Rightarrow> Inl (RequestException m)
      | Reply code body parsed \<Rightarrow>
          (if 400 \<le> code \<and> code < 600 then Inl (RequestException ''HTTPError'')
           else (case parsed of
                   None \<Rightarrow> Inl (RequestException ''JSONDecodeError'')
                 | Some j \<Rightarrow> Inr j)))"

definition str_int :: "int \<Rightarrow> string" where
  "str_int i = (if i < 0 then ''-'' @ str_nat (nat (- i)) else str_nat (nat i))"

subsection \<open>Lines 360 to 437: launch\_job\_template\<close>

record launch_kwargs =
  kw_limit :: "string option"
  kw_tags :: "string option"
  kw_skip_tags :: "string option"
  kw_job_type :: "string option"
  kw_verbosity :: "int option"

text \<open>
  The body of the function cannot be run. Line 385 builds the variables of the launch
  request with the dict display
  \<^verbatim>\<open>{**survey_answers or {}, **extra_vars or {}}\<close>,
  and that is not an expression of Python 3: in a dict display \<^verbatim>\<open>**\<close> takes a
  bitwise-or expression, which \<^verbatim>\<open>or\<close> cannot follow. The compiler rejects the module
  at line 385, column 49, so a call creates no record and sends no request: all there is
  to a launch is the SyntaxError.
\<close>

definition launch_job_template ::
  "tower_service \<Rightarrow> nat \<Rightarrow> nat \<Rightarrow> json option \<Rightarrow> json option \<Rightarrow> launch_kwargs \<Rightarrow> string
   \<Rightarrow> http_reply \<Rightarrow> tower_world \<Rightarrow> (exn + nat \<times> ansible_job_execution) \<times> tower_world" where
  "launch_job_template sv tpk usr sa ev kw uuid reply tw =
     (Inl (SyntaxError ''invalid syntax (services.py, line 385)''), tw)"

subsection \<open>Lines 439 to 545: polling\<close>

record poll_replies =
  job_reply :: http_reply
  stdout_reply :: http_reply
  events_reply :: http_reply

definition job_url :: "tower_service \<Rightarrow> int \<Rightarrow> string" where
  "job_url sv jid = tower_url sv @ ''/api/v2/jobs/'' @ str_int jid @ ''/''"

text \<open>Lines 439 to 455. A request error gives \<^verbatim>\<open>None\<close>; a session that cannot be made
  raises ValueError, which is not caught here.\<close>

definition get_job_status ::
  "tower_service \<Rightarrow> poll_replies \<Rightarrow> ansible_job_execution \<Rightarrow> tower_world
   \<Rightarrow> (exn + json option) \<times> tower_world" where
  "get_job_status sv rp je tw =
     (case tower_job_id je of
        None \<Rightarrow> (Inr None, tw)
      | Some jid \<Rightarrow>
          (if jid = 0 then (Inr None, tw)
           else (case get_session sv of
                   Inl e \<Rightarrow> (Inl e, tw)
                 | Inr session \<Rightarrow>
                     (let tw1 = tw\<lparr>sent := sent tw @ [GET (job_url sv jid) session]\<rparr>
                      in case checked_json (job_reply rp) of
                           Inl e \<Rightarrow> (Inr None, tw1)
                         | Inr job_data \<Rightarrow> (Inr (Some job_data), tw1)))))"

definition status_mapping :: "string \<Rightarrow> job_status option" where
  "status_mapping =
     map_of [(''pending'', JPending), (''waiting'', JWaiting), (''running'', JRunning),
             (''successful'', Successful), (''failed'', JFailed), (''error'', JError),
             (''canceled'', Canceled)]"

fun status_name :: "job_status \<Rightarrow> string" where
  "status_name JPending = ''pending''"
| "status_name JWaiting = ''waiting''"
| "status_name JRunning = ''running''"
| "status_name Successful = ''successful''"
| "status_name JFailed = ''failed''"
| "status_name JError = ''error''"
| "status_name Canceled = ''canceled''"

text \<open>\<^verbatim>\<open>status_mapping.get(job_data.get('status'), 'error')\<close>: a list or a dict as key
  is unhashable and raises.\<close>

definition mapped_status :: "pydict \<Rightarrow> exn + job_status" where
  "mapped_status d =
     (case map_of d ''status'' of
        Some (JStr s) \<Rightarrow> (case status_mapping s of Some st \<Rightarrow> Inr st | None \<Rightarrow> Inr JError)
      | Some (JList xs) \<Rightarrow> Inl (TypeError ''unhashable type'')
      | Some (JDict kvs) \<Rightarrow> Inl (TypeError ''unhashable type'')
      | _ \<Rightarrow> Inr JError)"

definition replace_Z :: "string \<Rightarrow> string" where
  "replace_Z s = concat (map (\<lambda>c. if c = CHR ''Z'' then ''+00:00'' else [c]) s)"

text \<open>A timestamp field of the job data: absent or falsy leaves the record's field as it
  is (\<^verbatim>\<open>Inr None\<close>); a string is parsed by \<^verbatim>\<open>fromisoformat\<close>, a parameter here; a
  string that does not parse, and any other truthy value, raises.\<close>

definition iso_field ::
  "(string \<Rightarrow> datetime option) \<Rightarrow> pydict \<Rightarrow> string \<Rightarrow> exn + datetime option" where
  "iso_field fromisoformat d key =
     (case map_of d key of
        None \<Rightarrow> Inr None
      | Some v \<Rightarrow>
          (if \<not> truthy v then Inr None
           else (case v of
                   JStr s \<Rightarrow>
                     (case fromisoformat (replace_Z s) of
                        None \<Rightarrow> Inl (ValueError ''Invalid isoformat string'')
                      | Some t \<Rightarrow> Inr (Some t))
                 | _ \<Rightarrow> Inl (AttributeError ''object has no attribute replace''))))"

text \<open>Lines 534 to 537: the output of the events that report an error or a failure.\<close>

fun stderr_lines :: "json list \<Rightarrow> json list option" where
  "stderr_lines [] = Some []"
| "stderr_lines (JDict ev # rest) =
     (case stderr_lines rest of
        None \<Rightarrow> None
      | Some ls \<Rightarrow>
          (if map_of ev ''event'' = Some (JStr ''error'')
              \<or> (case map_of ev ''failed'' of Some f \<Rightarrow> truthy f | None \<Rightarrow> False)
           then (case map_of ev ''stdout'' of
                   Some out \<Rightarrow> (if truthy out then Some (out # ls) else Some ls)
                 | None \<Rightarrow> Some ls)
           else Some ls))"
| "stderr_lines (_ # rest) = None"

text \<open>\<^verbatim>\<open>'\n'.join(lines)\<close> needs strings.\<close>

fun all_strings :: "json list \<Rightarrow> string list option" where
  "all_strings [] = Some []"
| "all_strings (JStr s # rest) =
     (case all_strings rest of None \<Rightarrow> None | Some ss \<Rightarrow> Some (s # ss))"
| "all_strings (_ # rest) = None"

text \<open>Lines 531 to 540: the text for \<^verbatim>\<open>result_stderr\<close> out of the events. \<^verbatim>\<open>None\<close>
  stands for an exception, \<^verbatim>\<open>Some None\<close> for no line at all.\<close>

definition collect_stderr :: "json option \<Rightarrow> string option option" where
  "collect_stderr eparsed =
     (case eparsed of
        Some (JDict ed) \<Rightarrow>
          (case py_iter (case map_of ed ''results'' of Some r \<Rightarrow> r | None \<Rightarrow> JList []) of
             None \<Rightarrow> None
           | Some evs \<Rightarrow>
               (case stderr_lines evs of
                  None \<Rightarrow> None
                | Some ls \<Rightarrow>
                    (if ls = [] then Some None
                     else (case all_strings ls of
                             None \<Rightarrow> None
                           | Some ss \<Rightarrow> Some (Some (join nl ss))))))
      | _ \<Rightarrow> None)"

text \<open>Lines 527 to 542, after the request for the events has been sent.\<close>

definition store_events ::
  "poll_replies \<Rightarrow> nat \<Rightarrow> ansible_job_execution \<Rightarrow> tower_world
   \<Rightarrow> ansible_job_execution \<times> tower_world" where
  "store_events rp pk je tw =
     (case events_reply rp of
        ConnectionError m \<Rightarrow> (je, tw)
      | Reply ecode ebody eparsed \<Rightarrow>
          (if ecode = 200
           then (case collect_stderr eparsed of
                   None \<Rightarrow> (je, tw)
                 | Some None \<Rightarrow> (je, save_job pk je tw)
                 | Some (Some err) \<Rightarrow>
                     (je\<lparr>result_stderr := err\<rparr>, save_job pk (je\<lparr>result_stderr := err\<rparr>) tw))
           else (je, save_job pk je tw)))"

text \<open>Lines 513 to 545. Every exception inside is caught and logged; what was assigned
  before it stays on the object but is not saved.\<close>

definition fetch_job_output ::
  "tower_service \<Rightarrow> poll_replies \<Rightarrow> nat \<Rightarrow> ansible_job_execution \<Rightarrow> tower_world
   \<Rightarrow> ansible_job_execution \<times> tower_world" where
  "fetch_job_output sv rp pk je tw =
     (case tower_job_id je of
        None \<Rightarrow> (je, tw)
      | Some jid \<Rightarrow>
     (if jid = 0 then (je, tw)
      else
     (case get_session sv of
        Inl e \<Rightarrow> (je, tw)
      | Inr session \<Rightarrow>
     (let tw1 = tw\<lparr>sent := sent tw @ [GET (job_url sv jid @ ''stdout/?format=txt'') session]\<rparr>
      in case stdout_reply rp of
           ConnectionError m \<Rightarrow> (je, tw1)
         | Reply code body parsed \<Rightarrow>
             store_events rp pk
               (if code = 200 then je\<lparr>result_stdout := body\<rparr> else je)
               (tw1\<lparr>sent := sent tw1 @ [GET (job_url sv jid @ ''job_events/'') session]\<rparr>)))))"

text \<open>\<^verbatim>\<open>elapsed\<close> is a FloatField: a number is stored, a truthy value that is not a
  number makes the save raise.\<close>

definition elapsed_field :: "pydict \<Rightarrow> exn + json option" where
  "elapsed_field d =
     (case map_of d ''elapsed'' of
        None \<Rightarrow> Inr None
      | Some v \<Rightarrow>
          (if \<not> truthy v then Inr None
           else (case v of
                   JNum n \<Rightarrow> Inr (Some v)
                 | JBool b \<Rightarrow> Inr (Some (JNum 1))
                 | _ \<Rightarrow> Inl (TypeError ''Field elapsed expected a number''))))"

text \<open>An optional new value for a field.\<close>

definition set_started :: "datetime option \<Rightarrow> ansible_job_execution \<Rightarrow> ansible_job_execution"
  where
  "set_started t je = (case t of Some v \<Rightarrow> je\<lparr>je_started_at := Some v\<rparr> | None \<Rightarrow> je)"

definition set_finished :: "datetime option \<Rightarrow> ansible_job_execution \<Rightarrow> ansible_job_execution"
  where
  "set_finished t je = (case t of Some v \<Rightarrow> je\<lparr>finished_at := Some v\<rparr> | None \<Rightarrow> je)"

definition set_elapsed :: "json option \<Rightarrow> ansible_job_execution \<Rightarrow> ansible_job_execution"
  where
  "set_elapsed e je = (case e of Some v \<Rightarrow> je\<lparr>elapsed := Some v\<rparr> | None \<Rightarrow> je)"

text \<open>Lines 475 to 494: the assignments from the job data, up to the save. A raise
  carries the object as it is at that point.\<close>

definition assign_job_data ::
  "(string \<Rightarrow> datetime option) \<Rightarrow> pydict \<Rightarrow> ansible_job_execution
   \<Rightarrow> (exn \<times> ansible_job_execution) + ansible_job_execution" where
  "assign_job_data fromisoformat d je =
     (case mapped_status d of
        Inl e \<Rightarrow> Inl (e, je)
      | Inr new_status \<Rightarrow>
     (case iso_field fromisoformat d ''started'' of
        Inl e \<Rightarrow> Inl (e, je\<lparr>je_status := new_status\<rparr>)
      | Inr st \<Rightarrow>
     (case iso_field fromisoformat d ''finished'' of
        Inl e \<Rightarrow> Inl (e, set_started st (je\<lparr>je_status := new_status\<rparr>))
      | Inr fi \<Rightarrow>
     (case elapsed_field d of
        Inl e \<Rightarrow>
          Inl (e, (set_finished fi (set_started st (je\<lparr>je_status := new_status\<rparr>)))
                    \<lparr>elapsed := map_of d ''elapsed''\<rparr>)
      | Inr el \<Rightarrow>
          Inr (set_elapsed el (set_finished fi (set_started st (je\<lparr>je_status := new_status\<rparr>))))))))"

text \<open>Lines 494 to 507: the save, the log of a change of status, and the fetch of the
  output when the job has ended and no output is stored yet.\<close>

definition save_and_fetch ::
  "tower_service \<Rightarrow> poll_replies \<Rightarrow> nat \<Rightarrow> job_status \<Rightarrow> ansible_job_execution
   \<Rightarrow> tower_world \<Rightarrow> ansible_job_execution \<times> tower_world" where
  "save_and_fetch sv rp pk old_status je tw =
     (let tw1 = save_job pk je tw;
          tw2 = (if old_status \<noteq> je_status je
                 then log_job_event pk ''info''
                        (''Durum degisti: '' @ status_name old_status @ '' -> ''
                         @ status_name (je_status je)) tw1
                 else tw1)
      in if je_status je \<in> set [Successful, JFailed, JError] \<and> result_stdout je = []
         then fetch_job_output sv rp pk je tw2
         else (je, tw2))"

text \<open>Lines 457 to 511. The result is the returned flag, the job execution object as
  the caller holds it afterwards, and the world.\<close>

definition update_job_status ::
  "tower_service \<Rightarrow> (string \<Rightarrow> datetime option) \<Rightarrow> poll_replies \<Rightarrow> nat \<Rightarrow> ansible_job_execution
   \<Rightarrow> tower_world \<Rightarrow> (exn + bool) \<times> ansible_job_execution \<times> tower_world" where
  "update_job_status sv fromisoformat rp pk je tw =
     (case get_job_status sv rp je tw of
        (Inl e, tw1) \<Rightarrow> (Inl e, je, tw1)
      | (Inr None, tw1) \<Rightarrow> (Inr False, je, tw1)
      | (Inr (Some job_data), tw1) \<Rightarrow>
     (if \<not> truthy job_data then (Inr False, je, tw1)
      else
     (case job_data of
        JDict d \<Rightarrow>
          (case assign_job_data fromisoformat d je of
             Inl (e, je1) \<Rightarrow> (Inr False, je1, tw1)
           | Inr je1 \<Rightarrow>
               (case save_and_fetch sv rp pk (je_status je) je1 tw1 of
                  (je2, tw2) \<Rightarrow> (Inr True, je2, tw2)))
      | _ \<Rightarrow> (Inr False, je, tw1))))"

text \<open>Two polls in a row, the second on the object and the world that the first has
  left.\<close>

definition poll_twice ::
  "tower_service \<Rightarrow> (string \<Rightarrow> datetime option) \<Rightarrow> poll_replies \<Rightarrow> nat \<Rightarrow> ansible_job_execution
   \<Rightarrow> tower_world \<Rightarrow> (exn + bool) \<times> ansible_job_execution \<times> tower_world" where
  "poll_twice sv fromisoformat rp pk je tw =
     (case update_job_status sv fromisoformat rp pk je tw of
        (r, je1, tw1) \<Rightarrow> update_job_status sv fromisoformat rp pk je1 tw1)"

section \<open>Notions used in the statements\<close>

text \<open>The world in which the \<^verbatim>\<open>try\<close> block of \<^verbatim>\<open>execute_playbook\<close> ends, by a raise or
  by its \<^verbatim>\<open>return\<close>.\<close>

definition outcome_world :: "raised + (playbook_execution \<times> world) \<Rightarrow> world" where
  "outcome_world x = (case x of Inl (e, loc, w) \<Rightarrow> w | Inr (execution, w) \<Rightarrow> w)"

text \<open>The statistics of a playbook after a run whose process returned the exit code
  \<^verbatim>\<open>rc\<close> (lines 71, 78 and 79).\<close>

definition updated_stats :: "ansible_playbook \<Rightarrow> int \<Rightarrow> datetime \<Rightarrow> ansible_playbook" where
  "updated_stats pb rc t =
     pb\<lparr>success_count := (if rc = 0 then success_count pb + 1 else success_count pb),
        execution_count := execution_count pb + 1,
        last_execution := Some t\<rparr>"

text \<open>What the environment's process does with a command, against the wait of the
  service: it overruns the wait, or it exits within it with a return code.\<close>

definition overruns :: "run_env \<Rightarrow> string list \<Rightarrow> bool" where
  "overruns env cmd =
     (case proc env cmd of
        Hangs \<Rightarrow> True
      | Exits d rc out err \<Rightarrow> timeout (svc env) < d
      | SpawnError m \<Rightarrow> False)"

definition exits_with :: "run_env \<Rightarrow> string list \<Rightarrow> int \<Rightarrow> bool" where
  "exits_with env cmd rc =
     (case proc env cmd of
        Hangs \<Rightarrow> False
      | Exits d rc' out err \<Rightarrow> d \<le> timeout (svc env) \<and> rc' = rc
      | SpawnError m \<Rightarrow> False)"

text \<open>The exit code that a run from the world \<^verbatim>\<open>w\<close> to the world \<^verbatim>\<open>w'\<close> got from
  its process: the run has started one process and that process has exited.\<close>

definition exit_code_of :: "world \<Rightarrow> world \<Rightarrow> int option" where
  "exit_code_of w w' =
     (case drop (length (proc_log w)) (proc_log w') of
        [Spawned cmd cwd t, Exited rc] \<Rightarrow> Some rc
      | _ \<Rightarrow> None)"

text \<open>The status of an execution as the database has it.\<close>

definition status_in :: "world \<Rightarrow> nat \<Rightarrow> exec_status option" where
  "status_in w eid = map_option status (map_of (executions w) eid)"


section \<open>Concrete inputs\<close>

text \<open>A service with the default settings, a playbook that requires approval and has a
  one-minute timeout, an execution of it, and a world holding them at
  2024-01-01T10:00 UTC.\<close>

definition ex_env :: run_env where
  "ex_env = \<lparr>svc = AnsibleService_init repo_settings,
     proc = (\<lambda>cmd. Exits 5 0 ''ok'' []),
     faults = (\<lambda>s. None),
     tmp_name = ''x1'',
     json_loads = (\<lambda>s. if s = ''{}'' then Some (JDict []) else None),
     json_dumps = (\<lambda>j. ''{}''),
     py_str = (\<lambda>j. ''?'')\<rparr>"

definition ex_playbook :: ansible_playbook where
  "ex_playbook = \<lparr>pb_name = ''restart'', playbook_path = ''/opt/ansible/playbooks/restart.yml'',
     requires_approval = True, is_dangerous = False, timeout_minutes = 1,
     target_servers = [\<lparr>server_name = ''web'', hostname = ''web1''\<rparr>],
     default_variables = JDict [], required_variables = [''region''], allowed_users = [],
     execution_count = 0, success_count = 0, last_execution = None\<rparr>"

definition ex_execution :: playbook_execution where
  "ex_execution = new_execution 1 5 ''ab12cd34'' (JDict []) (JList []) Approved"

definition ex_world :: world where
  "ex_world = \<lparr>playbooks = [(1, ex_playbook)], executions = [(1, ex_execution)], schedules = [],
     next_pk = 2, logs = [], queue = [], files = [], proc_log = [],
     clock = 63839700000000000\<rparr>"

text \<open>Two variations of the environment: the process runs for 100 seconds, and the
  process never exits.\<close>

definition slow_env :: run_env where
  "slow_env = ex_env\<lparr>proc := (\<lambda>cmd. Exits 100 0 ''ok'' [])\<rparr>"

definition hang_env :: run_env where
  "hang_env = ex_env\<lparr>proc := (\<lambda>cmd. Hangs)\<rparr>"

text \<open>An orchestrator service with a token, one job template, and the answer to a
  launch.\<close>

definition ex_tower :: tower_service where
  "ex_tower = \<lparr>tower_url = ''https://tower'', username = [], password = [], token = ''t0k'',
     verify_ssl = True, http_timeout = 30\<rparr>"

definition ex_template :: job_template where
  "ex_template = \<lparr>jt_name = ''deploy'', tower_id = 7, jt_job_type = ''run'', jt_verbosity = 0,
     usage_count = 0, last_used = None\<rparr>"

definition ex_epoch :: datetime where
  "ex_epoch = \<lparr>year = 2024, month = 1, day = 1, hour = 10, minute = 0, second = 0,
     microsecond = 0, utcoffset = 0\<rparr>"

definition ex_tower_world :: tower_world where
  "ex_tower_world = \<lparr>templates = [(1, ex_template)], job_executions = [], job_logs = [],
     next_job_pk = 1, sent = [], tower_clock = ex_epoch\<rparr>"

definition no_kwargs :: launch_kwargs where
  "no_kwargs = \<lparr>kw_limit = None, kw_tags = None, kw_skip_tags = None, kw_job_type = None,
     kw_verbosity = None\<rparr>"

definition ex_launch_reply :: http_reply where
  "ex_launch_reply = Reply 201 ''{id: 42}'' (Some (JDict [(''id'', JNum 42)]))"

text \<open>A job execution that is running on the orchestrator as job 42, the answers of
  an orchestrator on which the job has ended successfully with the output \<^verbatim>\<open>done\<close>, and
  the same with no output at all.\<close>

definition ex_job :: ansible_job_execution where
  "ex_job = \<lparr>je_template = 1, je_executor = 5, je_execution_id = ''u-1'',
     tower_job_id = Some 42, survey_answers = JDict [], extra_vars = JDict [],
     limit = [], tags = [], skip_tags = [], job_type = ''run'', verbosity = 0,
     je_status = JRunning, je_started_at = None, finished_at = None, elapsed = None,
     result_stdout = [], result_stderr = []\<rparr>"

definition ex_job_world :: tower_world where
  "ex_job_world = ex_tower_world\<lparr>job_executions := [(1, ex_job)], next_job_pk := 2\<rparr>"

definition ex_replies :: poll_replies where
  "ex_replies =
     \<lparr>job_reply = Reply 200 [] (Some (JDict [(''status'', JStr ''successful''),
                                             (''elapsed'', JNum 12)])),
      stdout_reply = Reply 200 ''done'' None,
      events_reply = Reply 200 [] (Some (JDict [(''results'', JList [])]))\<rparr>"

definition silent_replies :: poll_replies where
  "silent_replies = ex_replies\<lparr>stdout_reply := Reply 200 [] None\<rparr>"

definition no_iso :: "string \<Rightarrow> datetime option" where
  "no_iso s = None"

text \<open>Requests of the user who owns the execution, a world in which the execution
  has completed, and a cron schedule for midnight.\<close>

definition ex_user :: user where
  "ex_user = \<lparr>uid = 5, is_staff = False\<rparr>"

definition ex_api_env :: api_env where
  "ex_api_env = \<lparr>loads = (\<lambda>s. if s = ''{}'' then Some (JDict []) else None),
     to_str = (\<lambda>j. ''?''),
     uuid4 = ''0f3e9a7c-5b1d-4c55-9d2e-7a6b8c9d0e1f''\<rparr>"

definition ex_request :: request where
  "ex_request = \<lparr>req_user = ex_user, req_body = ''{}''\<rparr>"

definition ex_form_request :: form_request where
  "ex_form_request = \<lparr>form_user = ex_user, is_post = True, post_variables = Some ''{}'',
     post_target_hosts = []\<rparr>"







definition ex_cron_schedule :: automation_schedule where
  "ex_cron_schedule = \<lparr>sched_name = ''nightly'', sched_playbook_id = 1, is_enabled = True,
     schedule_type = ''cron'',
     scheduled_time = \<lparr>t_hour = 0, t_minute = 0, t_second = 0, t_microsecond = 0\<rparr>,
     scheduled_date = None, cron_expression = ''0 0 * * *'', sched_variables = JDict [],
     last_run = None, next_run = Some ex_epoch, run_count = 0\<rparr>"

definition istanbul :: "pydate \<Rightarrow> pytime \<Rightarrow> int" where
  "istanbul d t = 10800"


section \<open>Verified properties\<close>

subsection \<open>Dictionaries\<close>

lemma map_of_dict_update_step:
  "map_of (foldl (\<lambda>acc (k, v). AList.update k v acc) d kvs) k =
     (case map_of (rev kvs) k of Some v \<Rightarrow> Some v | None \<Rightarrow> map_of d k)"
proof (induction kvs arbitrary: d)
  case Nil
  then show ?case by simp
next
  case (Cons a kvs)
  obtain k' v' where a: "a = (k', v')" by (cases a)
  show ?case
    by (simp add: a Cons.IH update_conv' map_add_def split: option.splits)
qed

lemma map_of_rev_distinct:
  "distinct (map fst kvs) \<Longrightarrow> map_of (rev kvs) k = map_of kvs k"
proof (induction kvs)
  case Nil
  then show ?case by simp
next
  case (Cons a kvs)
  obtain k' v' where a: "a = (k', v')" by (cases a)
  from Cons.prems have notin: "k' \<notin> fst ` set kvs" and d: "distinct (map fst kvs)"
    by (simp_all add: a)
  have none: "map_of kvs k' = None"
    using notin by (simp add: map_of_eq_None_iff)
  show ?case
    using Cons.IH [OF d] none
    by (auto simp: a map_add_def split: option.splits)
qed

lemma dict_get_update:
  "distinct (map fst kvs) \<Longrightarrow>
   dict_get (dict_update d kvs) k = (case dict_get kvs k of Some v \<Rightarrow> Some v | None \<Rightarrow> dict_get d k)"
  unfolding dict_get_def dict_update_def
  by (simp add: map_of_dict_update_step map_of_rev_distinct)

subsection \<open>Launching a job template\<close>

text \<open>
  Claim C8. The code does not get as far as the claim: a launch with the survey answer
  \<^verbatim>\<open>region = eu\<close> and the explicit extra variable \<^verbatim>\<open>region = us\<close> ends in the
  SyntaxError of line 385, the world is as it was, and no request has been sent, so no
  \<^verbatim>\<open>extra_vars\<close> carry the explicit value.
\<close>

theorem launch_sends_no_request:
  "launch_job_template ex_tower 1 5 (Some (JDict [(''region'', JStr ''eu'')]))
     (Some (JDict [(''region'', JStr ''us'')])) no_kwargs ''u-1'' ex_launch_reply ex_tower_world
     = (Inl (SyntaxError ''invalid syntax (services.py, line 385)''), ex_tower_world)
   \<and> sent (snd (launch_job_template ex_tower 1 5 (Some (JDict [(''region'', JStr ''eu'')]))
                 (Some (JDict [(''region'', JStr ''us'')])) no_kwargs ''u-1'' ex_launch_reply
                 ex_tower_world)) = []"
  by (simp add: launch_job_template_def ex_tower_world_def)

subsection \<open>The inventory of a local run\<close>

lemma foldl_hosts:
  "foldl (\<lambda>acc host. acc @ fstr env host @ nl) a (map JStr hs) = a @ concat (map (\<lambda>h. h @ nl) hs)"
  by (induction hs arbitrary: a) (simp_all add: fstr_def)

lemma inventory_hosts_typed:
  "target_hosts execution = JList (map JStr ths) \<Longrightarrow>
   inventory_hosts execution playbook =
     JList (map JStr (if ths \<noteq> [] then ths
                      else if target_servers playbook \<noteq> [] then map hostname (target_servers playbook)
                      else [''localhost'']))"
  by (simp add: inventory_hosts_def Let_def comp_def)

text \<open>
  Claim C9. For an execution whose \<^verbatim>\<open>target_hosts\<close> is a list of host names, the
  inventory file that \<^verbatim>\<open>_create_inventory_file\<close> writes lists, under \<^verbatim>\<open>[targets]\<close>, the
  execution's own target hosts when there are any, otherwise the host names of the
  playbook's target servers when there are any, otherwise exactly \<^verbatim>\<open>localhost\<close>.
\<close>

theorem inventory_priority:
  assumes "target_hosts execution = JList (map JStr ths)"
      and "faults env S_inventory = None"
  shows "create_inventory_file env d execution playbook w =
    Inr (d @ ''/inventory.ini'',
         write_file (d @ ''/inventory.ini'')
           (''[targets]'' @ nl @ concat (map (\<lambda>h. h @ nl)
              (if ths \<noteq> [] then ths
               else if target_servers playbook \<noteq> [] then map hostname (target_servers playbook)
               else [''localhost'']))) w)"
  unfolding create_inventory_file_def Let_def inventory_hosts_typed [OF assms(1)]
  using assms(2) by (simp add: foldl_hosts del: map_map)

theorem inventory_priority_witness:
  "target_hosts (ex_execution\<lparr>target_hosts := JList (map JStr [])\<rparr>) = JList (map JStr [])
   \<and> faults ex_env S_inventory = None
   \<and> create_inventory_file ex_env ''/tmp/ansible_x1''
        (ex_execution\<lparr>target_hosts := JList (map JStr [])\<rparr>)
        (ex_playbook\<lparr>target_servers := []\<rparr>) ex_world =
      Inr (''/tmp/ansible_x1/inventory.ini'',
           write_file ''/tmp/ansible_x1/inventory.ini'' (''[targets]'' @ nl @ ''localhost'' @ nl)
             ex_world)"
proof -
  have h1: "target_hosts (ex_execution\<lparr>target_hosts := JList (map JStr [])\<rparr>) = JList (map JStr [])"
    by simp
  have h2: "faults ex_env S_inventory = None"
    by (simp add: ex_env_def)
  from inventory_priority [where d = "''/tmp/ansible_x1''"
      and playbook = "ex_playbook\<lparr>target_servers := []\<rparr>" and w = ex_world, OF h1 h2]
  show ?thesis using h1 h2 by simp
qed

subsection \<open>The local run, step by step\<close>

lemmas frame_defs = log_info_def log_error_def create_log_def save_execution_def
  save_playbook_def write_file_def advance_def rmtree_def cleanup_temp_files_def
  create_temp_directory_def

lemma timezone_now_frame [simp]:
  "timezone_now (w\<lparr>logs := l\<rparr>) = timezone_now w"
  "timezone_now (w\<lparr>executions := e\<rparr>) = timezone_now w"
  "timezone_now (w\<lparr>playbooks := p\<rparr>) = timezone_now w"
  "timezone_now (w\<lparr>files := f\<rparr>) = timezone_now w"
  "timezone_now (w\<lparr>queue := q\<rparr>) = timezone_now w"
  "timezone_now (w\<lparr>proc_log := pl\<rparr>) = timezone_now w"
  by (simp_all add: timezone_now_def)

lemma timezone_now_clock: "clock w1 = clock w \<Longrightarrow> timezone_now w1 = timezone_now w"
  by (simp add: timezone_now_def)

lemma handle_timeout_frame:
  "handle_timeout env eid loc w = (r, w') \<Longrightarrow>
     playbooks w' = playbooks w \<and> proc_log w' = proc_log w \<and> files w' = files w
     \<and> clock w' = clock w"
  by (auto simp: handle_timeout_def Let_def frame_defs split: option.splits)

lemma handle_exception_frame:
  "handle_exception env eid e loc w = (r, w') \<Longrightarrow>
     playbooks w' = playbooks w \<and> proc_log w' = proc_log w \<and> files w' = files w
     \<and> clock w' = clock w"
  by (auto simp: handle_exception_def Let_def frame_defs split: option.splits)

lemma begin_run_Inl:
  "begin_run env eid w = Inl (e, loc, w1) \<Longrightarrow>
     playbooks w1 = playbooks w \<and> proc_log w1 = proc_log w \<and> files w1 = files w
     \<and> clock w1 = clock w \<and> e \<noteq> TimeoutExpired"
  by (auto simp: begin_run_def Let_def frame_defs split: option.splits)

lemma begin_run_Inr:
  "begin_run env eid w = Inr (ex, pb, w1) \<Longrightarrow>
     playbooks w1 = playbooks w \<and> proc_log w1 = proc_log w \<and> files w1 = files w
     \<and> clock w1 = clock w
     \<and> (\<exists>ex0. map_of (executions w) eid = Some ex0 \<and> playbook_id ex = playbook_id ex0
            \<and> map_of (playbooks w) (playbook_id ex0) = Some pb)
     \<and> status ex = Running
     \<and> map_of (executions w1) eid = Some ex"
  by (auto simp: begin_run_def Let_def frame_defs update_conv' split: option.splits)

lemma record_result_frame:
  "outcome_world (record_result env eid td ex pb res w) = w' \<Longrightarrow>
     proc_log w' = proc_log w \<and> clock w' = clock w
     \<and> (playbooks w' = playbooks w
        \<or> playbooks w' = AList.update (playbook_id ex)
                            (updated_stats pb (returncode res) (timezone_now w)) (playbooks w)
                 \<and> (isl (record_result env eid td ex pb res w)
                      \<longrightarrow> faults env S_execution_save \<noteq> None))"
  by (auto simp: record_result_def outcome_world_def Let_def frame_defs updated_stats_def
      split: option.splits)

lemma record_result_no_timeout:
  "record_result env eid td ex pb res w \<noteq> Inl (TimeoutExpired, loc, w1)"
  by (auto simp: record_result_def Let_def split: option.splits)


lemma create_inventory_file_Inr:
  "create_inventory_file env td ex pb w = Inr (p, w1) \<Longrightarrow>
     playbooks w1 = playbooks w \<and> proc_log w1 = proc_log w \<and> clock w1 = clock w
     \<and> executions w1 = executions w \<and> p = td @ ''/inventory.ini''
     \<and> (\<exists>c. files w1 = AList.update p (File c) (files w))"
  by (auto simp: create_inventory_file_def Let_def frame_defs split: option.splits)

lemma create_inventory_file_Inl:
  "create_inventory_file env td ex pb w = Inl e \<Longrightarrow> e \<noteq> TimeoutExpired"
  by (auto simp: create_inventory_file_def Let_def split: option.splits)

lemma py_update_Inl: "py_update a b = Inl e \<Longrightarrow> e \<noteq> TimeoutExpired"
  by (auto simp: py_update_def split: json.splits option.splits)

lemma merged_variables_Inl: "merged_variables env ex pb = Inl e \<Longrightarrow> e \<noteq> TimeoutExpired"
  by (auto simp: merged_variables_def py_copy_def split: json.splits option.splits sum.splits if_splits
        dest: py_update_Inl)

lemma create_vars_file_Inr:
  "create_vars_file env td ex pb w = Inr (p, w1) \<Longrightarrow>
     playbooks w1 = playbooks w \<and> proc_log w1 = proc_log w \<and> clock w1 = clock w
     \<and> executions w1 = executions w \<and> p = td @ ''/vars.json''
     \<and> (\<exists>c. files w1 = AList.update p (File c) (files w))"
  by (auto simp: create_vars_file_def Let_def frame_defs split: option.splits sum.splits)

lemma create_vars_file_Inl:
  "create_vars_file env td ex pb w = Inl e \<Longrightarrow> e \<noteq> TimeoutExpired"
  by (auto simp: create_vars_file_def Let_def split: option.splits sum.splits
        dest: merged_variables_Inl)

lemma subprocess_run_Inl:
  "subprocess_run env cmd cwd t w = Inl (e, w1) \<Longrightarrow>
     playbooks w1 = playbooks w \<and> files w1 = files w \<and> executions w1 = executions w
     \<and> ((e \<noteq> TimeoutExpired \<and> proc_log w1 = proc_log w)
        \<or> (e = TimeoutExpired \<and> proc_log w1 = proc_log w @ [Spawned cmd cwd t, Killed]
            \<and> (case proc env cmd of Hangs \<Rightarrow> True | Exits d rc out err \<Rightarrow> t < d
                | SpawnError m \<Rightarrow> False)))"
  by (auto simp: subprocess_run_def advance_def split: proc_behaviour.splits if_splits)

lemma subprocess_run_Inr:
  "subprocess_run env cmd cwd t w = Inr (res, w1) \<Longrightarrow>
     playbooks w1 = playbooks w \<and> files w1 = files w \<and> executions w1 = executions w
     \<and> proc_log w1 = proc_log w @ [Spawned cmd cwd t, Exited (returncode res)]
     \<and> (case proc env cmd of Hangs \<Rightarrow> False
         | Exits d rc out err \<Rightarrow> d \<le> t \<and> rc = returncode res
         | SpawnError m \<Rightarrow> False)"
  by (auto simp: subprocess_run_def advance_def split: proc_behaviour.splits if_splits)


lemma finish_run_cases:
  assumes "finish_run env eid ex pb w = X"
  shows "(proc_log (outcome_world X) = proc_log w \<and> playbooks (outcome_world X) = playbooks w
            \<and> (\<forall>loc w1. X \<noteq> Inl (TimeoutExpired, loc, w1)))
       \<or> (\<exists>cmd cwd w1. X = Inl (TimeoutExpired, Some ex, w1)
            \<and> proc_log w1 = proc_log w @ [Spawned cmd cwd (timeout (svc env)), Killed]
            \<and> playbooks w1 = playbooks w \<and> executions w1 = executions w \<and> overruns env cmd)
       \<or> (\<exists>cmd cwd rc.
            proc_log (outcome_world X)
              = proc_log w @ [Spawned cmd cwd (timeout (svc env)), Exited rc]
            \<and> exits_with env cmd rc
            \<and> (\<forall>loc w1. X \<noteq> Inl (TimeoutExpired, loc, w1))
            \<and> (playbooks (outcome_world X) = playbooks w
               \<or> playbooks (outcome_world X)
                    = AList.update (playbook_id ex)
                        (updated_stats pb rc (timezone_now (outcome_world X))) (playbooks w)
                 \<and> (isl X \<longrightarrow> faults env S_execution_save \<noteq> None)))"
proof (cases "faults env S_mkdtemp")
  case (Some m)
  then show ?thesis using assms by (auto simp: finish_run_def outcome_world_def)
next
  case nomk: None
  obtain td w1 where td: "create_temp_directory env w = (td, w1)" by force
  then have f1: "playbooks w1 = playbooks w" "proc_log w1 = proc_log w" "executions w1 = executions w"
    by (auto simp: create_temp_directory_def Let_def)
  show ?thesis
  proof (cases "create_inventory_file env td ex pb w1")
    case (Inl e)
    then show ?thesis using assms nomk td f1 create_inventory_file_Inl [OF Inl]
      by (auto simp: finish_run_def outcome_world_def)
  next
    case (Inr a)
    obtain ip w2 where a: "a = (ip, w2)" by (cases a)
    note f2 = create_inventory_file_Inr [OF Inr [unfolded a]]
    show ?thesis
    proof (cases "create_vars_file env td ex pb w2")
      case (Inl e)
      then show ?thesis using assms nomk td f1 f2 Inr a create_vars_file_Inl [OF Inl]
        by (auto simp: finish_run_def outcome_world_def)
    next
      case Inr2: (Inr b)
      obtain vp w3 where b: "b = (vp, w3)" by (cases b)
      note f3 = create_vars_file_Inr [OF Inr2 [unfolded b]]
      let ?cmd = "build_ansible_command (svc env) (playbook_path pb) ip vp pb"
      show ?thesis
      proof (cases "faults env S_log_cmd")
        case (Some m)
        then show ?thesis using assms nomk td f1 f2 f3 Inr a Inr2 b
          by (auto simp: finish_run_def outcome_world_def Let_def)
      next
        case nolog: None
        let ?w4 = "log_info (''Ansible komutu: '' @ join '' '' ?cmd) eid w3"
        have f4: "playbooks ?w4 = playbooks w" "proc_log ?w4 = proc_log w"
                 "executions ?w4 = executions w"
          using f1 f2 f3 by (simp_all add: frame_defs)
        show ?thesis
        proof (cases "subprocess_run env ?cmd td (timeout (svc env)) ?w4")
          case (Inl c)
          obtain e w5 where c: "c = (e, w5)" by (cases c)
          have X: "X = Inl (e, Some ex, w5)"
            using assms nomk td Inr a Inr2 b nolog Inl c
            by (simp add: finish_run_def Let_def)
          from subprocess_run_Inl [OF Inl [unfolded c]] f4 X
          show ?thesis
            by (auto simp: outcome_world_def overruns_def)
        next
          case Inr3: (Inr c)
          obtain res w5 where c: "c = (res, w5)" by (cases c)
          have X: "X = record_result env eid td ex pb res w5"
            using assms nomk td Inr a Inr2 b nolog Inr3 c
            by (simp add: finish_run_def Let_def)
          note s = subprocess_run_Inr [OF Inr3 [unfolded c]]
          from record_result_frame [of env eid td ex pb res w5 "outcome_world X"] X
          have r: "proc_log (outcome_world X) = proc_log w5"
                  "clock (outcome_world X) = clock w5"
                  "playbooks (outcome_world X) = playbooks w5
                   \<or> playbooks (outcome_world X) = AList.update (playbook_id ex)
                        (updated_stats pb (returncode res) (timezone_now w5)) (playbooks w5)
                 \<and> (isl X \<longrightarrow> faults env S_execution_save \<noteq> None)"
            by simp_all
          have tz: "timezone_now (outcome_world X) = timezone_now w5"
            using r(2) by (rule timezone_now_clock)
          have nt: "\<forall>loc w1. X \<noteq> Inl (TimeoutExpired, loc, w1)"
            using X record_result_no_timeout by simp
          have ew: "exits_with env ?cmd (returncode res)"
            using s by (auto simp: exits_with_def split: proc_behaviour.splits)
          show ?thesis
            using r s f4 tz nt ew by auto
        qed
      qed
    qed
  qed
qed


lemma try_body_cases:
  assumes "try_body env eid w = X"
  shows "(proc_log (outcome_world X) = proc_log w \<and> playbooks (outcome_world X) = playbooks w
            \<and> (\<forall>loc w1. X \<noteq> Inl (TimeoutExpired, loc, w1)))
       \<or> (\<exists>ex cmd cwd w1. X = Inl (TimeoutExpired, Some ex, w1)
            \<and> proc_log w1 = proc_log w @ [Spawned cmd cwd (timeout (svc env)), Killed]
            \<and> playbooks w1 = playbooks w \<and> overruns env cmd)
       \<or> (\<exists>ex0 pb cmd cwd rc.
            map_of (executions w) eid = Some ex0
            \<and> map_of (playbooks w) (playbook_id ex0) = Some pb
            \<and> proc_log (outcome_world X)
              = proc_log w @ [Spawned cmd cwd (timeout (svc env)), Exited rc]
            \<and> exits_with env cmd rc
            \<and> (\<forall>loc w1. X \<noteq> Inl (TimeoutExpired, loc, w1))
            \<and> (playbooks (outcome_world X) = playbooks w
               \<or> playbooks (outcome_world X)
                    = AList.update (playbook_id ex0)
                        (updated_stats pb rc (timezone_now (outcome_world X))) (playbooks w)
                 \<and> (isl X \<longrightarrow> faults env S_execution_save \<noteq> None)))"
proof (cases "begin_run env eid w")
  case (Inl a)
  obtain e loc w1 where a: "a = (e, loc, w1)" by (cases a)
  from begin_run_Inl [OF Inl [unfolded a]] assms Inl a
  show ?thesis by (auto simp: try_body_def outcome_world_def)
next
  case (Inr a)
  obtain ex pb w1 where a: "a = (ex, pb, w1)" by (cases a)
  note b = begin_run_Inr [OF Inr [unfolded a]]
  have X: "finish_run env eid ex pb w1 = X"
    using assms Inr a by (simp add: try_body_def)
  from b obtain ex0 where ex0: "map_of (executions w) eid = Some ex0"
      "playbook_id ex = playbook_id ex0" "map_of (playbooks w) (playbook_id ex0) = Some pb"
    by blast
  from b have f: "playbooks w1 = playbooks w" "proc_log w1 = proc_log w" by simp_all
  from finish_run_cases [OF X]
  consider
    (none) "proc_log (outcome_world X) = proc_log w1" "playbooks (outcome_world X) = playbooks w1"
           "\<forall>loc w1. X \<noteq> Inl (TimeoutExpired, loc, w1)"
  | (killed) cmd cwd w2 where "X = Inl (TimeoutExpired, Some ex, w2)"
           "proc_log w2 = proc_log w1 @ [Spawned cmd cwd (timeout (svc env)), Killed]"
           "playbooks w2 = playbooks w1" "overruns env cmd"
  | (exited) cmd cwd rc where
           "proc_log (outcome_world X) = proc_log w1 @ [Spawned cmd cwd (timeout (svc env)), Exited rc]"
           "exits_with env cmd rc" "\<forall>loc w1. X \<noteq> Inl (TimeoutExpired, loc, w1)"
           "playbooks (outcome_world X) = playbooks w1
            \<or> playbooks (outcome_world X)
                 = AList.update (playbook_id ex)
                     (updated_stats pb rc (timezone_now (outcome_world X))) (playbooks w1)
                 \<and> (isl X \<longrightarrow> faults env S_execution_save \<noteq> None)"
    by blast
  then show ?thesis
  proof cases
    case none
    then show ?thesis using f by simp
  next
    case killed
    have "\<exists>ex cmd cwd w1. X = Inl (TimeoutExpired, Some ex, w1)
            \<and> proc_log w1 = proc_log w @ [Spawned cmd cwd (timeout (svc env)), Killed]
            \<and> playbooks w1 = playbooks w \<and> overruns env cmd"
      using killed f by auto
    then show ?thesis by blast
  next
    case exited
    have "\<exists>ex0 pb cmd cwd rc.
            map_of (executions w) eid = Some ex0
            \<and> map_of (playbooks w) (playbook_id ex0) = Some pb
            \<and> proc_log (outcome_world X)
              = proc_log w @ [Spawned cmd cwd (timeout (svc env)), Exited rc]
            \<and> exits_with env cmd rc
            \<and> (\<forall>loc w1. X \<noteq> Inl (TimeoutExpired, loc, w1))
            \<and> (playbooks (outcome_world X) = playbooks w
               \<or> playbooks (outcome_world X)
                    = AList.update (playbook_id ex0)
                        (updated_stats pb rc (timezone_now (outcome_world X))) (playbooks w)
                 \<and> (isl X \<longrightarrow> faults env S_execution_save \<noteq> None))"
      apply (rule exI [of _ ex0], rule exI [of _ pb], rule exI [of _ cmd],
             rule exI [of _ cwd], rule exI [of _ rc])
      using exited f ex0 by simp
    then show ?thesis by blast
  qed
qed


lemma execute_playbook_frame:
  assumes "execute_playbook env eid w = (r, w')"
  shows "playbooks w' = playbooks (outcome_world (try_body env eid w))"
    and "proc_log w' = proc_log (outcome_world (try_body env eid w))"
    and "files w' = files (outcome_world (try_body env eid w))"
    and "clock w' = clock (outcome_world (try_body env eid w))"
proof -
  have "playbooks w' = playbooks (outcome_world (try_body env eid w))
      \<and> proc_log w' = proc_log (outcome_world (try_body env eid w))
      \<and> files w' = files (outcome_world (try_body env eid w))
      \<and> clock w' = clock (outcome_world (try_body env eid w))"
  proof (cases "try_body env eid w")
    case (Inl a)
    obtain e loc w1 where a: "a = (e, loc, w1)" by (cases a)
    show ?thesis
    proof (cases "e = TimeoutExpired")
      case True
      with assms Inl a have "handle_timeout env eid loc w1 = (r, w')"
        by (simp add: execute_playbook_def)
      from handle_timeout_frame [OF this] show ?thesis
        by (simp add: Inl a outcome_world_def)
    next
      case False
      with assms Inl a have "handle_exception env eid e loc w1 = (r, w')"
        by (simp add: execute_playbook_def)
      from handle_exception_frame [OF this] show ?thesis
        by (simp add: Inl a outcome_world_def)
    qed
  next
    case (Inr b)
    obtain ex w1 where b: "b = (ex, w1)" by (cases b)
    with assms Inr show ?thesis
      by (auto simp: execute_playbook_def outcome_world_def)
  qed
  then show "playbooks w' = playbooks (outcome_world (try_body env eid w))"
    and "proc_log w' = proc_log (outcome_world (try_body env eid w))"
    and "files w' = files (outcome_world (try_body env eid w))"
    and "clock w' = clock (outcome_world (try_body env eid w))"
    by simp_all
qed

lemma handle_timeout_status:
  assumes "handle_timeout env eid (Some ex) w = (r, w')" and "faults env S_handler_save = None"
  shows "status_in w' eid = Some Timeout"
  using assms
  by (auto simp: handle_timeout_def Let_def status_in_def frame_defs update_conv'
        split: option.splits)

lemma exits_not_overruns: "exits_with env cmd rc \<Longrightarrow> \<not> overruns env cmd"
  by (auto simp: exits_with_def overruns_def split: proc_behaviour.splits)

text \<open>
  What the wait is bounded by: whenever \<^verbatim>\<open>execute_playbook\<close> starts a process, the
  timeout given to \<^verbatim>\<open>subprocess.run\<close> is the timeout of the service, the process is
  killed exactly when it overruns that bound, and then the status that the handler saves
  is Timeout.
\<close>

lemma wait_bounded_by_service_timeout:
  assumes "execute_playbook env eid w = (r, w')"
      and "proc_log w' \<noteq> proc_log w"
  shows "timeout (AnsibleService_init repo_settings) = 1800
       \<and> (\<exists>cmd cwd ev.
            proc_log w' = proc_log w @ [Spawned cmd cwd (timeout (svc env)), ev]
            \<and> (ev = Killed \<longleftrightarrow> overruns env cmd)
            \<and> (ev = Killed \<and> faults env S_handler_save = None
                 \<longrightarrow> status_in w' eid = Some Timeout))"
proof -
  let ?X = "try_body env eid w"
  note fr = execute_playbook_frame [OF assms(1)]
  have d: "timeout (AnsibleService_init repo_settings) = 1800"
    by (simp add: AnsibleService_init_def repo_settings_def)
  from try_body_cases [OF refl, of env eid w]
  consider
    (none) "proc_log (outcome_world ?X) = proc_log w"
  | (killed) ex cmd cwd w1 where "?X = Inl (TimeoutExpired, Some ex, w1)"
           "proc_log w1 = proc_log w @ [Spawned cmd cwd (timeout (svc env)), Killed]"
           "overruns env cmd"
  | (exited) cmd cwd rc where
           "proc_log (outcome_world ?X) = proc_log w @ [Spawned cmd cwd (timeout (svc env)), Exited rc]"
           "exits_with env cmd rc"
    by blast
  then have "\<exists>cmd cwd ev.
            proc_log w' = proc_log w @ [Spawned cmd cwd (timeout (svc env)), ev]
            \<and> (ev = Killed \<longleftrightarrow> overruns env cmd)
            \<and> (ev = Killed \<and> faults env S_handler_save = None
                 \<longrightarrow> status_in w' eid = Some Timeout)"
  proof cases
    case none
    with fr(2) assms(2) show ?thesis by simp
  next
    case killed
    have h: "handle_timeout env eid (Some ex) w1 = (r, w')"
      using assms(1) killed(1) by (simp add: execute_playbook_def)
    have pl: "proc_log w' = proc_log w @ [Spawned cmd cwd (timeout (svc env)), Killed]"
      using fr(2) killed(1,2) by (simp add: outcome_world_def)
    have st: "faults env S_handler_save = None \<longrightarrow> status_in w' eid = Some Timeout"
      using handle_timeout_status [OF h] by simp
    show ?thesis
      apply (rule exI [of _ cmd], rule exI [of _ cwd], rule exI [of _ Killed])
      using pl st killed(3) by simp
  next
    case exited
    have pl: "proc_log w' = proc_log w @ [Spawned cmd cwd (timeout (svc env)), Exited rc]"
      using fr(2) exited(1) by simp
    show ?thesis
      apply (rule exI [of _ cmd], rule exI [of _ cwd], rule exI [of _ "Exited rc"])
      using pl exits_not_overruns [OF exited(2)] by simp
  qed
  with d show ?thesis by simp
qed

lemma exit_code_of_exited:
  "proc_log w' = proc_log w @ [Spawned cmd cwd t, Exited rc] \<Longrightarrow> exit_code_of w w' = Some rc"
  by (simp add: exit_code_of_def)

text \<open>
  Claim C10. When the run ends in the timeout handler, and whenever it ends without an
  exit code from its process (the timeout, and every exception raised before
  \<^verbatim>\<open>subprocess.run\<close> has returned), the playbook table, and with it the playbook's
  \<^verbatim>\<open>execution_count\<close>, \<^verbatim>\<open>success_count\<close> and \<^verbatim>\<open>last_execution\<close>, is as it was.
  The table changes only in a run whose process returned an exit code, and then
  \<^verbatim>\<open>execution_count\<close> is one more, \<^verbatim>\<open>last_execution\<close> is the time of the update, and
  \<^verbatim>\<open>success_count\<close> is one more exactly when the exit code is 0.
\<close>

theorem statistics_follow_exit_code:
  assumes "execute_playbook env eid w = (r, w')"
  shows "(\<forall>loc w1. try_body env eid w = Inl (TimeoutExpired, loc, w1)
            \<longrightarrow> playbooks w' = playbooks w)
       \<and> (exit_code_of w w' = None \<longrightarrow> playbooks w' = playbooks w)
       \<and> (playbooks w' \<noteq> playbooks w
            \<longrightarrow> (\<exists>ex0 pb rc.
                   map_of (executions w) eid = Some ex0
                   \<and> map_of (playbooks w) (playbook_id ex0) = Some pb
                   \<and> exit_code_of w w' = Some rc
                   \<and> playbooks w' = AList.update (playbook_id ex0)
                                       (updated_stats pb rc (timezone_now w')) (playbooks w)))"
proof -
  let ?X = "try_body env eid w"
  note fr = execute_playbook_frame [OF assms(1)]
  have tz: "timezone_now w' = timezone_now (outcome_world ?X)"
    using fr(4) by (rule timezone_now_clock)
  from try_body_cases [OF refl, of env eid w]
  consider
    (none) "playbooks (outcome_world ?X) = playbooks w"
  | (killed) ex w1 where "?X = Inl (TimeoutExpired, Some ex, w1)" "playbooks w1 = playbooks w"
  | (exited) ex0 pb cmd cwd rc where
      "map_of (executions w) eid = Some ex0"
      "map_of (playbooks w) (playbook_id ex0) = Some pb"
      "proc_log (outcome_world ?X) = proc_log w @ [Spawned cmd cwd (timeout (svc env)), Exited rc]"
      "\<forall>loc w1. ?X \<noteq> Inl (TimeoutExpired, loc, w1)"
      "playbooks (outcome_world ?X)
         = AList.update (playbook_id ex0)
             (updated_stats pb rc (timezone_now (outcome_world ?X))) (playbooks w)"
    by blast
  then show ?thesis
  proof cases
    case none
    with fr(1) show ?thesis by simp
  next
    case killed
    then have "playbooks (outcome_world ?X) = playbooks w"
      by (simp add: outcome_world_def)
    with fr(1) show ?thesis by simp
  next
    case exited
    have ec: "exit_code_of w w' = Some rc"
      using exited(3) fr(2) by (simp add: exit_code_of_exited)
    have "\<exists>ex0 pb rc.
                   map_of (executions w) eid = Some ex0
                   \<and> map_of (playbooks w) (playbook_id ex0) = Some pb
                   \<and> exit_code_of w w' = Some rc
                   \<and> playbooks w' = AList.update (playbook_id ex0)
                                       (updated_stats pb rc (timezone_now w')) (playbooks w)"
      apply (rule exI [of _ ex0], rule exI [of _ pb], rule exI [of _ rc])
      using exited ec fr tz by simp
    with exited(4) ec show ?thesis by auto
  qed
qed

subsection \<open>The local run on concrete inputs\<close>

lemmas run_defs = execute_playbook_def try_body_def begin_run_def finish_run_def
  record_result_def handle_timeout_def handle_exception_def
  create_temp_directory_def create_inventory_file_def create_vars_file_def
  merged_variables_def py_copy_def py_update_def inventory_hosts_def
  build_ansible_command_def subprocess_run_def cleanup_temp_files_def rmtree_def
  log_info_def log_error_def create_log_def save_execution_def save_playbook_def
  write_file_def advance_def fstr_def

lemmas ex_defs = ex_env_def ex_world_def ex_playbook_def ex_execution_def new_execution_def
  AnsibleService_init_def repo_settings_def slow_env_def hang_env_def

lemma str_nat_60: "str_nat 60 = ''60''"
  by (simp add: str_nat.simps digit_def)

lemma slow_run_log:
  "proc_log (snd (execute_playbook slow_env 1 ex_world)) =
     [Spawned [''ansible-playbook'', ''/opt/ansible/playbooks/restart.yml'', ''-i'',
               ''/tmp/ansible_x1/inventory.ini'', ''--extra-vars'',
               ''@/tmp/ansible_x1/vars.json'', ''-v'', ''--timeout'', ''60'']
        ''/tmp/ansible_x1'' 1800,
      Exited 0]"
  by (simp add: run_defs ex_defs Let_def str_nat_60)

lemma slow_run_status:
  "status_in (snd (execute_playbook slow_env 1 ex_world)) 1 = Some Completed"
  by (simp add: run_defs ex_defs Let_def status_in_def)

text \<open>
  Claim C4. The wait does not use the definition's bound: the playbook's timeout is one
  minute, which the code puts on the command line as \<^verbatim>\<open>--timeout 60\<close>, and the
  process runs for 100 seconds; the timeout given to \<^verbatim>\<open>subprocess.run\<close> is the 1800
  seconds of the service, the process is not killed, and the execution is completed,
  not timed out.
\<close>

theorem definition_timeout_not_the_bound:
  "timeout_minutes ex_playbook * 60 < 100
   \<and> proc slow_env [] = Exits 100 0 ''ok'' []
   \<and> status_in (snd (execute_playbook slow_env 1 ex_world)) 1 = Some Completed
   \<and> proc_log (snd (execute_playbook slow_env 1 ex_world)) =
     [Spawned [''ansible-playbook'', ''/opt/ansible/playbooks/restart.yml'', ''-i'',
               ''/tmp/ansible_x1/inventory.ini'', ''--extra-vars'',
               ''@/tmp/ansible_x1/vars.json'', ''-v'', ''--timeout'', ''60'']
        ''/tmp/ansible_x1'' 1800,
      Exited 0]"
  using slow_run_log slow_run_status by (simp add: ex_defs)

lemma hang_run_log:
  "proc_log (snd (execute_playbook hang_env 1 ex_world)) =
     [Spawned [''ansible-playbook'', ''/opt/ansible/playbooks/restart.yml'', ''-i'',
               ''/tmp/ansible_x1/inventory.ini'', ''--extra-vars'',
               ''@/tmp/ansible_x1/vars.json'', ''-v'', ''--timeout'', ''60'']
        ''/tmp/ansible_x1'' 1800,
      Killed]"
  by (simp add: run_defs ex_defs Let_def str_nat_60)

text \<open>
  Claim C6. The claim holds on the path where the process returns, and fails on the
  others: after a run that ends in the timeout handler the temporary directory, the
  inventory file and the variables file are still there.
\<close>

theorem temp_files_remain_after_timeout:
  "status_in (snd (execute_playbook hang_env 1 ex_world)) 1 = Some Timeout
   \<and> files (snd (execute_playbook hang_env 1 ex_world)) =
       [(''/tmp/ansible_x1'', Dir),
        (''/tmp/ansible_x1/inventory.ini'', File (''[targets]'' @ nl @ ''web1'' @ nl)),
        (''/tmp/ansible_x1/vars.json'', File ''{}'')]
   \<and> files (snd (execute_playbook ex_env 1 ex_world)) = []"
  by (simp add: run_defs ex_defs Let_def status_in_def)

lemma hang_times_out:
  "try_body hang_env 1 ex_world
     = Inl (TimeoutExpired, fst (snd (projl (try_body hang_env 1 ex_world))),
            snd (snd (projl (try_body hang_env 1 ex_world))))"
  by (simp add: run_defs ex_defs Let_def)

lemma hang_no_exit_code:
  "exit_code_of ex_world (snd (execute_playbook hang_env 1 ex_world)) = None"
  using hang_run_log by (simp add: exit_code_of_def ex_world_def)

lemma normal_run_changes_statistics:
  "playbooks (snd (execute_playbook ex_env 1 ex_world)) \<noteq> playbooks ex_world"
  by (simp add: run_defs ex_defs Let_def)

theorem statistics_follow_exit_code_witness:
  "execute_playbook hang_env 1 ex_world
     = (fst (execute_playbook hang_env 1 ex_world), snd (execute_playbook hang_env 1 ex_world))
   \<and> try_body hang_env 1 ex_world
       = Inl (TimeoutExpired, fst (snd (projl (try_body hang_env 1 ex_world))),
              snd (snd (projl (try_body hang_env 1 ex_world))))
   \<and> exit_code_of ex_world (snd (execute_playbook hang_env 1 ex_world)) = None
   \<and> playbooks (snd (execute_playbook hang_env 1 ex_world)) = playbooks ex_world
   \<and> playbooks (snd (execute_playbook ex_env 1 ex_world)) \<noteq> playbooks ex_world
   \<and> (\<exists>ex0 pb rc.
         map_of (executions ex_world) 1 = Some ex0
         \<and> map_of (playbooks ex_world) (playbook_id ex0) = Some pb
         \<and> exit_code_of ex_world (snd (execute_playbook ex_env 1 ex_world)) = Some rc
         \<and> playbooks (snd (execute_playbook ex_env 1 ex_world))
             = AList.update (playbook_id ex0)
                 (updated_stats pb rc (timezone_now (snd (execute_playbook ex_env 1 ex_world))))
                 (playbooks ex_world))"
proof -
  have h1: "execute_playbook hang_env 1 ex_world
     = (fst (execute_playbook hang_env 1 ex_world), snd (execute_playbook hang_env 1 ex_world))"
    by simp
  from statistics_follow_exit_code [OF h1] hang_no_exit_code
  have c1: "playbooks (snd (execute_playbook hang_env 1 ex_world)) = playbooks ex_world"
    by blast
  have g1: "execute_playbook ex_env 1 ex_world
     = (fst (execute_playbook ex_env 1 ex_world), snd (execute_playbook ex_env 1 ex_world))"
    by simp
  from statistics_follow_exit_code [OF g1] normal_run_changes_statistics
  have c2: "\<exists>ex0 pb rc.
         map_of (executions ex_world) 1 = Some ex0
         \<and> map_of (playbooks ex_world) (playbook_id ex0) = Some pb
         \<and> exit_code_of ex_world (snd (execute_playbook ex_env 1 ex_world)) = Some rc
         \<and> playbooks (snd (execute_playbook ex_env 1 ex_world))
             = AList.update (playbook_id ex0)
                 (updated_stats pb rc (timezone_now (snd (execute_playbook ex_env 1 ex_world))))
                 (playbooks ex_world)"
    by blast
  show ?thesis
    using h1 hang_times_out hang_no_exit_code c1 normal_run_changes_statistics c2 by blast
qed

subsection \<open>Cancelling\<close>








subsection \<open>Submitting\<close>

lemma create_and_dispatch_error_no_mutation:
  "\<not> success (fst (create_and_dispatch env req pbid playbook vars hosts w))
     \<Longrightarrow> snd (create_and_dispatch env req pbid playbook vars hosts w) = w"
  by (auto simp: create_and_dispatch_def error_response_def ok_response_def
        split: sum.splits prod.splits if_splits)

lemma api_execute_playbook_error_no_mutation:
  "\<not> success (fst (api_execute_playbook env req pbid w))
     \<Longrightarrow> snd (api_execute_playbook env req pbid w) = w"
  unfolding api_execute_playbook_def Let_def
  by (auto simp: create_and_dispatch_error_no_mutation
        split: option.splits sum.splits prod.splits if_splits)

lemma api_execute_playbook_invalid:
  assumes "map_of (playbooks w) pbid = Some playbook"
      and "request_data env req = Inr data"
      and "validate_variables (loads env) (get_default data ''variables'' (JDict []))
             (required_variables playbook) = (False, msg)"
      and "allowed_users playbook = [] \<or> uid (req_user req) \<in> set (allowed_users playbook)"
  shows "api_execute_playbook env req pbid w = (error_response 400 msg, w)"
  using assms by (auto simp: api_execute_playbook_def Let_def)

text \<open>
  Claim C3. The claim holds for \<^verbatim>\<open>api_execute_playbook\<close> and fails for the form view
  \<^verbatim>\<open>execute_playbook\<close> of views.py: the playbook requires the variable \<^verbatim>\<open>region\<close>, the
  posted variables are \<^verbatim>\<open>{}\<close>, the validator rejects them, the API answers 400 and
  leaves the world as it was, and the form view creates execution 2.
\<close>

theorem form_view_creates_execution_without_validation:
  "validate_variables (loads ex_api_env) (JStr ''{}'') (required_variables ex_playbook)
     = (False, ''Eksik zorunlu degiskenler: region'')
   \<and> api_execute_playbook ex_api_env ex_request 1 ex_world
     = (error_response 400 ''Eksik zorunlu degiskenler: region'', ex_world)
   \<and> view_execute_playbook ex_api_env ex_form_request 1 ex_world
     = (Redirect 2,
        ex_world\<lparr>executions := executions ex_world
                     @ [(2, new_execution 1 5 ''0f3e9a7c'' (JStr ''{}'') (JList []) Pending)],
                 next_pk := 3\<rparr>)"
  by (simp add: validate_variables_def api_execute_playbook_def view_execute_playbook_def
        request_data_def create_execution_def dict_keys_def get_default_def
        ex_api_env_def ex_request_def ex_form_request_def ex_user_def ex_world_def
        ex_playbook_def ex_execution_def new_execution_def Let_def)

subsection \<open>The next run of a cron schedule\<close>

lemma calculate_next_run_cron:
  "schedule_type s = ''cron'' \<Longrightarrow>
   calculate_next_run zone s w =
     (case dt_add_us (timezone_now w) (timedelta_hours 1) of
        Inl e \<Rightarrow> Inl e
      | Inr t \<Rightarrow> Inr (Some t))"
  by (simp add: calculate_next_run_def Let_def)

lemma ex_now: "timezone_now ex_world = ex_epoch"
  by (simp add: timezone_now_def ex_world_def ex_epoch_def ord2ymd_def Let_def
        DAYS_BEFORE_MONTH_def DAYS_IN_MONTH_def)

lemma ex_one_hour_later:
  "dt_add_us ex_epoch (timedelta_hours 1) = Inr (ex_epoch\<lparr>hour := 11\<rparr>)"
  by (simp add: dt_add_us_def timedelta_hours_def local_us_def toordinal_def ymd2ord_def
        days_before_year_def days_before_month_def is_leap_def ex_epoch_def ord2ymd_def
        Let_def DAYS_BEFORE_MONTH_def DAYS_IN_MONTH_def MAXORDINAL_def)

text \<open>
  Claim C7. The cron branch does not look at the expression: at 2024-01-01T10:00 the next
  run of the schedule \<^verbatim>\<open>0 0 * * *\<close> (midnight) is 11:00 of the same day, and so is the
  next run of \<^verbatim>\<open>30 2 * * 1\<close>.
\<close>

theorem cron_next_run_is_one_hour_later:
  "cron_expression ex_cron_schedule = ''0 0 * * *''
   \<and> timezone_now ex_world = ex_epoch
   \<and> calculate_next_run istanbul ex_cron_schedule ex_world = Inr (Some (ex_epoch\<lparr>hour := 11\<rparr>))
   \<and> calculate_next_run istanbul (ex_cron_schedule\<lparr>cron_expression := ''30 2 * * 1''\<rparr>) ex_world
       = Inr (Some (ex_epoch\<lparr>hour := 11\<rparr>))"
  by (simp add: calculate_next_run_cron ex_now ex_one_hour_later ex_cron_schedule_def)

subsection \<open>Polling a remote job\<close>

lemmas poll_defs = poll_twice_def update_job_status_def get_job_status_def get_session_def
  checked_json_def assign_job_data_def mapped_status_def status_mapping_def iso_field_def
  elapsed_field_def set_started_def set_finished_def set_elapsed_def save_and_fetch_def
  fetch_job_output_def store_events_def collect_stderr_def save_job_def log_job_event_def
  job_url_def str_int_def

lemmas poll_ex_defs = ex_tower_def ex_job_def ex_job_world_def ex_tower_world_def
  ex_replies_def silent_replies_def no_iso_def

lemma str_nat_42: "str_nat 42 = ''42''"
  by (simp add: str_nat.simps digit_def)

text \<open>
  Claim C5. The fetch is guarded by the stored output being empty (line 504), so it is
  done once only when the output that was fetched is not empty. The job has ended
  successfully with no output at all: the first poll fetches the output and the events
  and stores the empty text, and the second poll fetches both again. With the output
  \<^verbatim>\<open>done\<close> the second poll sends the request for the status and nothing else.
\<close>

theorem empty_output_is_fetched_again:
  "result_stdout (fst (snd (update_job_status ex_tower no_iso silent_replies 1 ex_job ex_job_world))) = []
   \<and> je_status (fst (snd (update_job_status ex_tower no_iso silent_replies 1 ex_job ex_job_world)))
       = Successful
   \<and> sent (snd (snd (poll_twice ex_tower no_iso silent_replies 1 ex_job ex_job_world))) =
       [GET ''https://tower/api/v2/jobs/42/'' (Bearer ''t0k''),
        GET ''https://tower/api/v2/jobs/42/stdout/?format=txt'' (Bearer ''t0k''),
        GET ''https://tower/api/v2/jobs/42/job_events/'' (Bearer ''t0k''),
        GET ''https://tower/api/v2/jobs/42/'' (Bearer ''t0k''),
        GET ''https://tower/api/v2/jobs/42/stdout/?format=txt'' (Bearer ''t0k''),
        GET ''https://tower/api/v2/jobs/42/job_events/'' (Bearer ''t0k'')]
   \<and> sent (snd (snd (poll_twice ex_tower no_iso ex_replies 1 ex_job ex_job_world))) =
       [GET ''https://tower/api/v2/jobs/42/'' (Bearer ''t0k''),
        GET ''https://tower/api/v2/jobs/42/stdout/?format=txt'' (Bearer ''t0k''),
        GET ''https://tower/api/v2/jobs/42/job_events/'' (Bearer ''t0k''),
        GET ''https://tower/api/v2/jobs/42/'' (Bearer ''t0k'')]"
  by (simp add: poll_defs poll_ex_defs Let_def str_nat_42)

end
